theory Spec2Isabelle
  imports Main "HOL-Library.Word"
begin

section \<open>Basic types\<close>

text \<open>
  \<open>common.Address\<close> is a \<open>[20]byte\<close> array and \<open>ids.ID\<close> a \<open>[32]byte\<close> array: fixed-width
  values, compared bytewise by \<open>bytes.Equal\<close>, modelled as 160-bit and 256-bit words.
  \<open>uint64\<close> is a 64-bit word (\<open>+\<close> and \<open>-\<close> wrap). A Go \<open>string\<close> and a \<open>[]byte\<close> are
  sequences of bytes; both are modelled as \<open>char list\<close> (a HOL \<open>char\<close> is one byte).
\<close>

type_synonym address = "160 word"
type_synonym ID = "256 word"
type_synonym uint64 = "64 word"
type_synonym bytes = "char list"
type_synonym ref = nat

datatype error =
    ErrNonActionable
  | ErrInvalidMagic
  | InsufficientBalance
  | BalanceOverflow
  | HashMismatch string string
  | AllocationFailed error address uint64
  | JSONError string
  | RequestFailed string
  | EncodingError string
  | KeyError string
  | TxFailed ID
  | ContextDone
  | NilDereference

section \<open>The ledger: balances\<close>

text \<open>
  The balance namespace of the Ledger Store, a key-value map from address to the stored
  \<open>uint64\<close> balance. An address with no entry has never been credited.
\<close>

type_synonym database = "address \<rightharpoonup> uint64"

definition zeroAddress :: address where
  \<comment> \<open>Modelled from the spec: the package variable \<open>zeroAddress\<close> is declared in another
      file of the package; the spec calls it the zero address, the all-zero \<open>common.Address\<close>.\<close>
  "zeroAddress = 0"

definition GetBalance :: "database \<Rightarrow> address \<Rightarrow> uint64" where
  \<comment> \<open>Modelled from the spec: \<open>GetBalance\<close> is not among the sources. An account is
      "created implicitly on first credit", so an address without an entry reads as 0.\<close>
  "GetBalance db a = (case db a of None \<Rightarrow> 0 | Some b \<Rightarrow> b)"

definition SetBalance :: "database \<Rightarrow> address \<Rightarrow> uint64 \<Rightarrow> error option \<times> database" where
  \<comment> \<open>Modelled from the spec: \<open>SetBalance\<close> is not among the sources. It is handed a
      write-only \<open>database.KeyValueWriter\<close> (see \<open>Genesis.Load\<close>), so it can only put the
      given balance under the address key ("set" of the Ledger Store); the map store
      never refuses a write.\<close>
  "SetBalance db a bal = (None, db(a \<mapsto> bal))"

definition ModifyBalance ::
  "database \<Rightarrow> address \<Rightarrow> bool \<Rightarrow> uint64 \<Rightarrow> (error + uint64) \<times> database" where
  \<comment> \<open>Modelled from the spec: \<open>ModifyBalance\<close> is not among the sources. A balance is an
      unsigned 64-bit count that is never negative, and "debits fail closed if
      insufficient": a debit of more than the balance returns an error and writes
      nothing. A credit adds the amount. The call returns an error that \<open>Execute\<close>
      handles after the credit too, and a sum above \<open>2^64 - 1\<close> is no 64-bit count: such a
      credit is refused like an excessive debit, before anything is written, so that a
      credit never lowers a balance. The spec gives the refusal of a credit no name.\<close>
  "ModifyBalance db a add change =
     (let b = GetBalance db a in
      if add then
        (if 2 ^ 64 \<le> unat b + unat change then (Inl BalanceOverflow, db)
         else
           (let n = b + change in
            case SetBalance db a n of
              (Some err, db') \<Rightarrow> (Inl err, db')
            | (None, db') \<Rightarrow> (Inr n, db')))
      else if b < change then (Inl InsufficientBalance, db)
      else
        (let n = b - change in
         case SetBalance db a n of
           (Some err, db') \<Rightarrow> (Inl err, db')
         | (None, db') \<Rightarrow> (Inr n, db')))"

section \<open>Transactions\<close>

text \<open>
  The declaration of \<open>BaseTx\<close> is not among the sources. Its fields are the ones the
  sources use: \<open>Sender\<close> and \<open>Prefix\<close> (set by \<open>claimFunc\<close>), \<open>BlockID\<close>, \<open>Magic\<close> and \<open>Price\<close>
  (read by \<open>TypedData\<close>), and the graffiti nonce that \<open>SetGraffiti\<close> assigns. \<open>ClaimTx\<close> and
  \<open>TransferTx\<close> embed a pointer to their \<open>BaseTx\<close>; the pointer is a reference into the
  object store of the section on transaction objects below.
\<close>

record BaseTx =
  Sender :: bytes
  Prefix :: bytes
  BlockID :: ID
  Graffiti :: uint64
  Magic :: uint64
  Price :: uint64

record ClaimTx =
  BaseTx :: ref

record TransferTx =
  BaseTx :: ref
  To :: address
  Units :: uint64

record TransactionContext =
  Database :: database
  Sender :: address

text \<open>
  \<open>Execute\<close> mutates \<open>c.Database\<close> in place and returns an error or nil. The model returns
  the error (\<open>None\<close> for nil) together with the database as the call leaves it, so that
  what an early return leaves behind is visible.
\<close>

definition Execute :: "TransferTx \<Rightarrow> TransactionContext \<Rightarrow> error option \<times> database" where
  "Execute t c =
     (if To t = zeroAddress then (Some ErrNonActionable, Database c)
      else if To t = Sender c then (Some ErrNonActionable, Database c)
      else if Units t = 0 then (Some ErrNonActionable, Database c)
      else
        (case ModifyBalance (Database c) (Sender c) False (Units t) of
           (Inl err, db1) \<Rightarrow> (Some err, db1)
         | (Inr _, db1) \<Rightarrow>
             (case ModifyBalance db1 (To t) True (Units t) of
                (Inl err, db2) \<Rightarrow> (Some err, db2)
              | (Inr _, db2) \<Rightarrow> (None, db2))))"

section \<open>Genesis\<close>

record Airdrop =
  Address :: address

record CustomAllocation =
  Address :: address
  Balance :: uint64

text \<open>
  \<open>LookbackWindow\<close> and \<open>BlockTarget\<close> are \<open>int64\<close>: 64-bit words read as two's complement.
  \<open>CustomAllocation\<close> is a slice of pointers; an entry is \<open>None\<close> when the pointer is nil
  (a JSON \<open>null\<close>), and reading a field through it is a runtime panic.
\<close>

record Genesis =
  Magic :: uint64
  BaseTxUnits :: uint64
  ValueUnitSize :: uint64
  MaxValueSize :: uint64
  ClaimFeeMultiplier :: uint64
  ClaimTier3Multiplier :: uint64
  ClaimTier2Size :: uint64
  ClaimTier2Multiplier :: uint64
  ClaimTier1Size :: uint64
  ClaimTier1Multiplier :: uint64
  PrefixRenewalDiscount :: uint64
  ClaimReward :: uint64
  LifelineUnitReward :: uint64
  LotteryRewardMultipler :: uint64
  LotteryRewardDivisor :: uint64
  LookbackWindow :: "64 word"
  BlockTarget :: "64 word"
  TargetUnits :: uint64
  MinPrice :: uint64
  MinBlockCost :: uint64
  CustomAllocation :: "CustomAllocation option list"
  AirdropHash :: string
  AirdropUnits :: uint64

definition Verify :: "Genesis \<Rightarrow> error option" where
  "Verify g = (if Magic g = 0 then Some ErrInvalidMagic else None)"

text \<open>
  The two \<open>for ... range\<close> loops of \<open>Load\<close>. Each stops at the first failing
  \<open>SetBalance\<close> and returns its error wrapped with the address and the balance; what was
  written before stays written. \<open>NilDereference\<close> stands for the panic of \<open>alloc.Address\<close>
  on a nil entry.
\<close>

fun Load_airdrop_loop :: "uint64 \<Rightarrow> Airdrop option list \<Rightarrow> database \<Rightarrow> error option \<times> database" where
  "Load_airdrop_loop units [] db = (None, db)"
| "Load_airdrop_loop units (None # rest) db = (Some NilDereference, db)"
| "Load_airdrop_loop units (Some alloc # rest) db =
     (case SetBalance db (Airdrop.Address alloc) units of
        (Some err, db') \<Rightarrow> (Some (AllocationFailed err (Airdrop.Address alloc) units), db')
      | (None, db') \<Rightarrow> Load_airdrop_loop units rest db')"

fun Load_custom_loop :: "CustomAllocation option list \<Rightarrow> database \<Rightarrow> error option \<times> database" where
  "Load_custom_loop [] db = (None, db)"
| "Load_custom_loop (None # rest) db = (Some NilDereference, db)"
| "Load_custom_loop (Some alloc # rest) db =
     (case SetBalance db (CustomAllocation.Address alloc) (Balance alloc) of
        (Some err, db') \<Rightarrow>
          (Some (AllocationFailed err (CustomAllocation.Address alloc) (Balance alloc)), db')
      | (None, db') \<Rightarrow> Load_custom_loop rest db')"

text \<open>
  \<open>Load\<close> calls two libraries that are not part of the repository; they are parameters:
  \<open>keccakHex data\<close> is \<open>common.BytesToHash(crypto.Keccak256(data)).Hex()\<close>, and
  \<open>unmarshal data\<close> is \<open>json.Unmarshal\<close> into a \<open>[]*Airdrop\<close> (the error, or the parsed list).
  The database is a \<open>database.KeyValueWriter\<close>, mutated in place; the model returns it
  with the error.
\<close>

definition Load ::
  "(bytes \<Rightarrow> string) \<Rightarrow> (bytes \<Rightarrow> error + Airdrop option list) \<Rightarrow>
   Genesis \<Rightarrow> database \<Rightarrow> bytes \<Rightarrow> error option \<times> database" where
  "Load keccakHex unmarshal g db airdropData =
     (case
        (if AirdropHash g \<noteq> [] then
           (let h = keccakHex airdropData in
            if AirdropHash g \<noteq> h then (Some (HashMismatch (AirdropHash g) h), db)
            else
              (case unmarshal airdropData of
                 Inl err \<Rightarrow> (Some err, db)
               | Inr standardAllocation \<Rightarrow>
                   Load_airdrop_loop (AirdropUnits g) standardAllocation db))
         else (None, db))
      of
        (Some err, db1) \<Rightarrow> (Some err, db1)
      | (None, db1) \<Rightarrow> Load_custom_loop (CustomAllocation g) db1)"

definition DefaultGenesis :: Genesis where
  "DefaultGenesis =
     \<lparr>Magic = 0,
      BaseTxUnits = 10,
      ValueUnitSize = 256,
      MaxValueSize = 128 * 1024,
      ClaimFeeMultiplier = 5,
      ClaimTier3Multiplier = 1,
      ClaimTier2Size = 36,
      ClaimTier2Multiplier = 5,
      ClaimTier1Size = 12,
      ClaimTier1Multiplier = 25,
      PrefixRenewalDiscount = 5,
      ClaimReward = 60 * 60 * 24 * 15,
      LifelineUnitReward = 60 * 60 * 6,
      LotteryRewardMultipler = 8,
      LotteryRewardDivisor = 10,
      LookbackWindow = 60,
      BlockTarget = 1,
      TargetUnits = 10 * 512 * 60,
      MinPrice = 1,
      MinBlockCost = 0,
      CustomAllocation = [],
      AirdropHash = [],
      AirdropUnits = 0\<rparr>"

section \<open>Transaction objects\<close>

text \<open>
  A transaction is handled through pointers: an \<open>UnsignedTransaction\<close> interface value
  holds a pointer to a \<open>ClaimTx\<close> or a \<open>TransferTx\<close>, and each of these embeds a pointer
  to its \<open>BaseTx\<close>. The object store maps references to objects, one table per struct
  type; \<open>nextRef\<close> is the next unused reference, and every reference below it is
  allocated. Pointers are taken to be non-nil (\<open>claimFunc\<close> builds both objects itself).
\<close>

datatype UnsignedTransaction = ClaimTxPtr ref | TransferTxPtr ref

record heap =
  baseTxs :: "ref \<Rightarrow> BaseTx"
  claimTxs :: "ref \<Rightarrow> ClaimTx"
  transferTxs :: "ref \<Rightarrow> TransferTx"
  nextRef :: ref

datatype txvalue = ClaimTxValue BaseTx | TransferTxValue BaseTx address uint64

definition baseOf :: "heap \<Rightarrow> UnsignedTransaction \<Rightarrow> ref" where
  "baseOf h utx =
     (case utx of
        ClaimTxPtr p \<Rightarrow> ClaimTx.BaseTx (claimTxs h p)
      | TransferTxPtr p \<Rightarrow> TransferTx.BaseTx (transferTxs h p))"

definition contents :: "heap \<Rightarrow> UnsignedTransaction \<Rightarrow> txvalue" where
  \<comment> \<open>What a reader of the transaction sees: its own fields and those of its \<open>BaseTx\<close>.\<close>
  "contents h utx =
     (case utx of
        ClaimTxPtr p \<Rightarrow> ClaimTxValue (baseTxs h (ClaimTx.BaseTx (claimTxs h p)))
      | TransferTxPtr p \<Rightarrow>
          TransferTxValue (baseTxs h (TransferTx.BaseTx (transferTxs h p)))
            (To (transferTxs h p)) (Units (transferTxs h p)))"

definition SetBlockID :: "heap \<Rightarrow> UnsignedTransaction \<Rightarrow> ID \<Rightarrow> heap" where
  \<comment> \<open>Modelled from the spec: the setter of \<open>BaseTx\<close> is not among the sources. It
      returns nothing, so it assigns "the block identifier it was mined against" of the
      \<open>BaseTx\<close> object the transaction points to.\<close>
  "SetBlockID h utx bid =
     h\<lparr>baseTxs := (baseTxs h)(baseOf h utx := (baseTxs h (baseOf h utx))\<lparr>BlockID := bid\<rparr>)\<rparr>"

definition SetGraffiti :: "heap \<Rightarrow> UnsignedTransaction \<Rightarrow> uint64 \<Rightarrow> heap" where
  \<comment> \<open>Modelled from the spec: the setter of \<open>BaseTx\<close> is not among the sources. It
      returns nothing, so it assigns the "mutable graffiti nonce" of the \<open>BaseTx\<close> object
      the transaction points to.\<close>
  "SetGraffiti h utx g =
     h\<lparr>baseTxs := (baseTxs h)(baseOf h utx := (baseTxs h (baseOf h utx))\<lparr>Graffiti := g\<rparr>)\<rparr>"

definition GetBlockID :: "heap \<Rightarrow> UnsignedTransaction \<Rightarrow> ID" where
  \<comment> \<open>Modelled from the spec: the getter of \<open>BaseTx\<close> is not among the sources.\<close>
  "GetBlockID h utx = BlockID (baseTxs h (baseOf h utx))"



section \<open>The claim client\<close>

text \<open>
  The client talks to the node through an \<open>rpc.EndpointRequester\<close>, waits on timers and
  checks a \<open>context.Context\<close>. One run is modelled against a fixed record of what the
  outside answers: the clock \<open>t\<close> counts the requests sent and the timer waits done so far,
  \<open>reply... t\<close> is the answer to the request sent at clock \<open>t\<close>, and a context with a
  deadline is done from some clock value on (\<open>Err\<close> is sticky). Any real run is the run
  against some such record.
\<close>

record requester =
  replyCurrBlock :: "nat \<Rightarrow> error + ID"
  replyValidBlockID :: "nat \<Rightarrow> ID \<Rightarrow> error + bool"
  replyDifficultyEstimate :: "nat \<Rightarrow> error + uint64"
  replyIssueTx :: "nat \<Rightarrow> bytes \<Rightarrow> error + ID \<times> bool"
  replyCheckTx :: "nat \<Rightarrow> ID \<Rightarrow> error + bool"
  replyPrefixInfo :: "nat \<Rightarrow> bytes \<Rightarrow> error + bytes"

datatype "context" = Background | Deadline nat

definition ctx_Err :: "context \<Rightarrow> nat \<Rightarrow> error option" where
  "ctx_Err ctx t =
     (case ctx of
        Background \<Rightarrow> None
      | Deadline d \<Rightarrow> if d \<le> t then Some ContextDone else None)"

text \<open>
  Functions of the repository and of its libraries that the client calls and that are
  not among the sources; they are parameters of the model. \<open>UnsignedBytes\<close> is
  \<open>chain.UnsignedBytes\<close> (a function of what the transaction holds), \<open>Difficulty\<close> is
  \<open>pow.Difficulty\<close>, \<open>ParseKey\<close> gives the error of \<open>chain.ParseKey\<close>, \<open>NewTxInit\<close> is
  \<open>chain.NewTx\<close> followed by \<open>tx.Init\<close> and \<open>tx.Bytes\<close>, and \<open>WithTimeout t\<close> is the clock value
  from which a context made by \<open>context.WithTimeout\<close> at clock \<open>t\<close> is done.
\<close>

record deps =
  UnsignedBytes :: "txvalue \<Rightarrow> error + bytes"
  Difficulty :: "bytes \<Rightarrow> uint64"
  ParseKey :: "bytes \<Rightarrow> error option"
  LoadPK :: "string \<Rightarrow> error + bytes"
  PublicKeyBytes :: "bytes \<Rightarrow> bytes"
  Sign :: "bytes \<Rightarrow> bytes \<Rightarrow> error + bytes"
  NewTxInit :: "txvalue \<Rightarrow> bytes \<Rightarrow> error + bytes"
  WithTimeout :: "nat \<Rightarrow> nat"

record flags =
  privateKeyFile :: string
  url :: string
  endpoint :: string
  prefixInfo :: bool

definition currBlock :: "requester \<Rightarrow> nat \<Rightarrow> error + ID" where
  "currBlock rq t = (case replyCurrBlock rq t of Inl err \<Rightarrow> Inl err | Inr blockID \<Rightarrow> Inr blockID)"

definition validBlockID :: "requester \<Rightarrow> nat \<Rightarrow> ID \<Rightarrow> error + bool" where
  "validBlockID rq t blkID =
     (case replyValidBlockID rq t blkID of Inl err \<Rightarrow> Inl err | Inr valid \<Rightarrow> Inr valid)"

definition difficultyEstimate :: "requester \<Rightarrow> nat \<Rightarrow> error + uint64" where
  "difficultyEstimate rq t =
     (case replyDifficultyEstimate rq t of Inl err \<Rightarrow> Inl err | Inr difficulty \<Rightarrow> Inr difficulty)"

text \<open>
  The inner \<open>for\<close> loop of \<open>mine\<close>, for the block id \<open>cbID\<close> and from the graffiti value
  \<open>graffiti\<close> on. The first argument bounds the number of iterations; \<open>None\<close> means the
  bound was reached. Otherwise the result is \<open>Some (r, h, t)\<close> with the object store and
  the clock as the loop leaves them, where \<open>r = Some x\<close> when \<open>mine\<close> returned \<open>x\<close> from
  inside the loop, and \<open>r = None\<close> when the loop was left (the context is done, or
  \<open>break\<close> on a block id that is no longer valid).
\<close>

fun mine_graffiti_loop ::
  "nat \<Rightarrow> deps \<Rightarrow> context \<Rightarrow> requester \<Rightarrow> UnsignedTransaction \<Rightarrow> ID \<Rightarrow> uint64 \<Rightarrow>
   heap \<times> nat \<Rightarrow> ((error + UnsignedTransaction) option \<times> heap \<times> nat) option" where
  "mine_graffiti_loop 0 dp ctx rq utx cbID graffiti (h, t) = None"
| "mine_graffiti_loop (Suc n) dp ctx rq utx cbID graffiti (h, t) =
     (if ctx_Err ctx t \<noteq> None then Some (None, h, t)
      else
        (case validBlockID rq t cbID of
           Inl err \<Rightarrow> Some (Some (Inl err), h, Suc t)
         | Inr v \<Rightarrow>
             if \<not> v then Some (None, h, Suc t)
             else
               (let h1 = SetGraffiti h utx graffiti in
                case UnsignedBytes dp (contents h1 utx) of
                  Inl err \<Rightarrow> Some (Some (Inl err), h1, Suc t)
                | Inr b \<Rightarrow>
                    (let d = Difficulty dp b in
                     case difficultyEstimate rq (Suc t) of
                       Inl err \<Rightarrow> Some (Some (Inl err), h1, Suc (Suc t))
                     | Inr est \<Rightarrow>
                         if est \<le> d then Some (Some (Inr utx), h1, Suc (Suc t))
                         else mine_graffiti_loop n dp ctx rq utx cbID (graffiti + 1)
                                (h1, Suc (Suc t))))))"

text \<open>
  \<open>mine\<close>: the outer loop. It returns the error of the context when the context is done
  at the head of the loop.
\<close>

fun mine ::
  "nat \<Rightarrow> deps \<Rightarrow> context \<Rightarrow> requester \<Rightarrow> UnsignedTransaction \<Rightarrow>
   heap \<times> nat \<Rightarrow> ((error + UnsignedTransaction) \<times> heap \<times> nat) option" where
  "mine 0 dp ctx rq utx (h, t) = None"
| "mine (Suc n) dp ctx rq utx (h, t) =
     (case ctx_Err ctx t of
        Some cerr \<Rightarrow> Some (Inl cerr, h, t)
      | None \<Rightarrow>
          (case currBlock rq t of
             Inl err \<Rightarrow> Some (Inl err, h, Suc t)
           | Inr cbID \<Rightarrow>
               (let h1 = SetBlockID h utx cbID in
                case mine_graffiti_loop n dp ctx rq utx cbID 0 (h1, Suc t) of
                  None \<Rightarrow> None
                | Some (Some r, h2, t2) \<Rightarrow> Some (r, h2, t2)
                | Some (None, h2, t2) \<Rightarrow> mine n dp ctx rq utx (h2, t2))))"

text \<open>
  The polling loop of \<open>claimFunc\<close> (label \<open>done\<close>). Each iteration waits for the one-second
  timer or for the context, whichever comes first (one tick of the clock), and then
  sends \<open>checkTx\<close>. A failed request is only printed: \<open>resp\<close> is a fresh reply whose
  \<open>Confirmed\<close> is false, so the loop goes on. The result tells whether the loop ended on
  a confirmation, and the clock.
\<close>

fun poll :: "nat \<Rightarrow> context \<Rightarrow> requester \<Rightarrow> ID \<Rightarrow> nat \<Rightarrow> (bool \<times> nat) option" where
  "poll 0 ctx rq txID t = None"
| "poll (Suc n) ctx rq txID t =
     (if ctx_Err ctx t \<noteq> None then Some (False, t)
      else if ctx_Err ctx (Suc t) \<noteq> None then Some (False, Suc t)
      else
        (case replyCheckTx rq (Suc t) txID of
           Inl err \<Rightarrow> poll n ctx rq txID (Suc (Suc t))
         | Inr confirmed \<Rightarrow>
             if confirmed then Some (True, Suc (Suc t))
             else poll n ctx rq txID (Suc (Suc t))))"

text \<open>
  \<open>getClaimOp\<close> ends the process with \<open>os.Exit(128)\<close> on a wrong number of arguments and
  on a prefix that \<open>ParseKey\<close> refuses: \<open>Inl 128\<close>. Otherwise it returns the prefix.
\<close>

definition getClaimOp :: "deps \<Rightarrow> string list \<Rightarrow> nat + bytes" where
  "getClaimOp dp args =
     (case args of
        [arg] \<Rightarrow>
          (let pfx = arg;
               pfx = (if pfx \<noteq> [] \<and> last pfx = CHR ''/'' then butlast pfx else pfx)
           in case ParseKey dp pfx of
                Some err \<Rightarrow> Inl 128
              | None \<Rightarrow> Inr pfx)
      | _ \<Rightarrow> Inl 128)"

definition newBaseTx :: "heap \<Rightarrow> BaseTx \<Rightarrow> ref \<times> heap" where
  "newBaseTx h b = (nextRef h, h\<lparr>baseTxs := (baseTxs h)(nextRef h := b), nextRef := Suc (nextRef h)\<rparr>)"

definition newClaimTx :: "heap \<Rightarrow> ClaimTx \<Rightarrow> ref \<times> heap" where
  "newClaimTx h c = (nextRef h, h\<lparr>claimTxs := (claimTxs h)(nextRef h := c), nextRef := Suc (nextRef h)\<rparr>)"

datatype outcome = Exit nat | Returned "error option"

text \<open>
  \<open>claimFunc\<close>, from the object store and the clock it starts with. The result is the way
  the command ends (a process exit or the returned error), with the object store and
  the clock at that point; \<open>None\<close> when a loop reached the iteration bound. Printing,
  the leading slash put before \<open>endpoint\<close> and the construction of the requester send
  nothing and are left out. The answer to the final prefix-info request, error or not,
  is only printed.
\<close>

definition claimFunc ::
  "nat \<Rightarrow> deps \<Rightarrow> flags \<Rightarrow> requester \<Rightarrow> string list \<Rightarrow> heap \<times> nat \<Rightarrow>
   (outcome \<times> heap \<times> nat) option" where
  "claimFunc n dp fl rq args s =
     (case s of (h, t) \<Rightarrow>
      case LoadPK dp (privateKeyFile fl) of
        Inl err \<Rightarrow> Some (Returned (Some err), h, t)
      | Inr priv \<Rightarrow>
      (case getClaimOp dp args of
        Inl code \<Rightarrow> Some (Exit code, h, t)
      | Inr pfx \<Rightarrow>
      (let (b, h1) = newBaseTx h \<lparr>BaseTx.Sender = PublicKeyBytes dp priv, Prefix = pfx,
                                  BlockID = 0, Graffiti = 0, BaseTx.Magic = 0, Price = 0\<rparr>;
           (p, h2) = newClaimTx h1 \<lparr>ClaimTx.BaseTx = b\<rparr>;
           utx = ClaimTxPtr p;
           ctx = Deadline (WithTimeout dp t)
       in case mine n dp ctx rq utx (h2, t) of
            None \<Rightarrow> None
          | Some (Inl err, h3, t3) \<Rightarrow> Some (Returned (Some err), h3, t3)
          | Some (Inr mtx, h3, t3) \<Rightarrow>
          (case UnsignedBytes dp (contents h3 mtx) of
            Inl err \<Rightarrow> Some (Returned (Some err), h3, t3)
          | Inr b \<Rightarrow>
          (case Sign dp priv b of
            Inl err \<Rightarrow> Some (Returned (Some err), h3, t3)
          | Inr sig \<Rightarrow>
          (case NewTxInit dp (contents h3 mtx) sig of
            Inl err \<Rightarrow> Some (Returned (Some err), h3, t3)
          | Inr txBytes \<Rightarrow>
          (case replyIssueTx rq t3 txBytes of
            Inl err \<Rightarrow> Some (Returned (Some err), h3, Suc t3)
          | Inr (txID, success) \<Rightarrow>
              if \<not> success then Some (Returned (Some (TxFailed txID)), h3, Suc t3)
              else
                (let ctx = Deadline (WithTimeout dp (Suc t3))
                 in case poll n ctx rq txID (Suc t3) of
                      None \<Rightarrow> None
                    | Some (confirmed, t4) \<Rightarrow>
                        if prefixInfo fl then
                          (case replyPrefixInfo rq t4 pfx of
                             Inl err \<Rightarrow> Some (Returned None, h3, Suc t4)
                           | Inr info \<Rightarrow> Some (Returned None, h3, Suc t4))
                        else Some (Returned None, h3, t4)))))))))"

text \<open>
  Whether the transaction, as it stands in the object store \<open>h\<close>, meets the difficulty
  estimate that the node gives in its answer to the request sent at clock \<open>t\<close>:
  \<open>Some True\<close> when the difficulty of its unsigned bytes is at least the estimate,
  \<open>Some False\<close> when it is below, \<open>None\<close> when the encoding or the request fails. This is
  the comparison \<open>d >= est\<close> of \<open>mine\<close>.
\<close>

definition meets_estimate :: "deps \<Rightarrow> requester \<Rightarrow> heap \<Rightarrow> UnsignedTransaction \<Rightarrow> nat \<Rightarrow> bool option" where
  "meets_estimate dp rq h utx t =
     (case UnsignedBytes dp (contents h utx) of
        Inl err \<Rightarrow> None
      | Inr b \<Rightarrow>
          (case replyDifficultyEstimate rq t of
             Inl err \<Rightarrow> None
           | Inr est \<Rightarrow> Some (est \<le> Difficulty dp b)))"

section \<open>An example world\<close>

text \<open>
  A concrete object store, requester and set of library functions, on which the model
  is run. The store holds the two objects \<open>claimFunc\<close> builds for the prefix
  \<open>hello.avax\<close>: a \<open>BaseTx\<close> at reference 0 and a \<open>ClaimTx\<close> at reference 1. The requester
  reports the block id fetched at clock 0 as no longer valid at clock 1, and a constant
  estimate of 2; the difficulty of a claim is its graffiti, and \<open>checkTx\<close> fails before
  clock 12.
\<close>

definition emptyHeap :: heap where
  "emptyHeap =
     \<lparr>baseTxs = (\<lambda>_. \<lparr>BaseTx.Sender = [], Prefix = [], BlockID = 0, Graffiti = 0,
                         BaseTx.Magic = 0, Price = 0\<rparr>),
      claimTxs = (\<lambda>_. \<lparr>ClaimTx.BaseTx = 0\<rparr>),
      transferTxs = (\<lambda>_. \<lparr>TransferTx.BaseTx = 0, To = 0, Units = 0\<rparr>),
      nextRef = 0\<rparr>"

definition exampleHeap :: heap where
  "exampleHeap =
     snd (newClaimTx
       (snd (newBaseTx emptyHeap
          \<lparr>BaseTx.Sender = ''pub'', Prefix = ''hello.avax'', BlockID = 0, Graffiti = 0,
             BaseTx.Magic = 0, Price = 0\<rparr>))
       \<lparr>ClaimTx.BaseTx = 0\<rparr>)"

definition exampleRequester :: requester where
  "exampleRequester =
     \<lparr>replyCurrBlock = (\<lambda>t. Inr (of_nat t)),
      replyValidBlockID = (\<lambda>t blkID. Inr (t \<noteq> 1)),
      replyDifficultyEstimate = (\<lambda>t. Inr 2),
      replyIssueTx = (\<lambda>t txBytes. Inr (9, True)),
      replyCheckTx = (\<lambda>t txID. if t < 12 then Inl (RequestFailed ''checkTx'') else Inr True),
      replyPrefixInfo = (\<lambda>t pfx. Inr [])\<rparr>"

definition exampleDeps :: deps where
  "exampleDeps =
     \<lparr>UnsignedBytes =
        (\<lambda>v. case v of
           ClaimTxValue b \<Rightarrow> Inr (replicate (unat (Graffiti b)) CHR ''g'')
         | TransferTxValue b to units \<Rightarrow> Inl (EncodingError ''transfer'')),
      Difficulty = (\<lambda>b. of_nat (length b)),
      ParseKey = (\<lambda>k. if k = [] then Some (KeyError ''empty'') else None),
      LoadPK = (\<lambda>file. Inr ''priv''),
      PublicKeyBytes = (\<lambda>priv. ''pub''),
      Sign = (\<lambda>priv b. Inr ''sig''),
      NewTxInit = (\<lambda>v sig. Inr ''tx''),
      WithTimeout = (\<lambda>t. t + 100)\<rparr>"

definition exampleFlags :: flags where
  "exampleFlags =
     \<lparr>privateKeyFile = ''.quark-cli-pk'', url = ''http://127.0.0.1:9650'', endpoint = [],
      prefixInfo = True\<rparr>"


section \<open>Properties of TransferTx.Execute\<close>

lemma ModifyBalance_debit_ok:
  "\<not> GetBalance db a < u \<Longrightarrow>
   ModifyBalance db a False u = (Inr (GetBalance db a - u), db(a \<mapsto> GetBalance db a - u))"
  by (simp add: ModifyBalance_def SetBalance_def Let_def)

lemma ModifyBalance_debit_fail:
  "GetBalance db a < u \<Longrightarrow> ModifyBalance db a False u = (Inl InsufficientBalance, db)"
  by (simp add: ModifyBalance_def Let_def)

lemma ModifyBalance_credit_ok:
  "unat (GetBalance db a) + unat u < 2 ^ 64 \<Longrightarrow>
   ModifyBalance db a True u = (Inr (GetBalance db a + u), db(a \<mapsto> GetBalance db a + u))"
  by (simp add: ModifyBalance_def SetBalance_def Let_def)

lemma ModifyBalance_credit_refused:
  "2 ^ 64 \<le> unat (GetBalance db a) + unat u \<Longrightarrow>
   ModifyBalance db a True u = (Inl BalanceOverflow, db)"
  by (simp add: ModifyBalance_def Let_def)

lemma Execute_actionable:
  assumes "To t \<noteq> zeroAddress" "To t \<noteq> Sender c" "Units t \<noteq> 0"
  shows "Execute t c =
     (if GetBalance (Database c) (Sender c) < Units t
      then (Some InsufficientBalance, Database c)
      else if 2 ^ 64 \<le> unat (GetBalance (Database c) (To t)) + unat (Units t)
      then (Some BalanceOverflow,
            (Database c)(Sender c \<mapsto> GetBalance (Database c) (Sender c) - Units t))
      else (None, (Database c)
              (Sender c \<mapsto> GetBalance (Database c) (Sender c) - Units t,
               To t \<mapsto> GetBalance (Database c) (To t) + Units t)))"
proof (cases "GetBalance (Database c) (Sender c) < Units t")
  case True
  with assms show ?thesis
    by (simp add: Execute_def ModifyBalance_debit_fail)
next
  case False
  have other: "GetBalance ((Database c)(Sender c \<mapsto> x)) (To t) = GetBalance (Database c) (To t)"
    for x using assms(2) by (simp add: GetBalance_def)
  show ?thesis
  proof (cases "2 ^ 64 \<le> unat (GetBalance (Database c) (To t)) + unat (Units t)")
    case True
    with False assms show ?thesis
      by (simp add: Execute_def ModifyBalance_debit_ok ModifyBalance_credit_refused other)
  next
    case fits: False
    with False assms show ?thesis
      by (simp add: Execute_def ModifyBalance_debit_ok ModifyBalance_credit_ok other not_le)
  qed
qed

text \<open>
  Claim C1, as the code has it. For a TransferTx whose \<open>To\<close> is not the zero address and
  not the sender, and whose \<open>Units\<close> is not 0: when the sender's balance is at least
  \<open>Units\<close> and the balance of \<open>To\<close> plus \<open>Units\<close> is at most \<open>2^64 - 1\<close>, \<open>Execute\<close> returns nil,
  the sender's balance is lower by \<open>Units\<close> and the balance of \<open>To\<close> is higher by \<open>Units\<close>
  (both as numbers, nothing wraps), and no other account changes; when the sender's
  balance is below \<open>Units\<close>, \<open>Execute\<close> returns an error and the database is the one it was
  given.
\<close>

theorem TransferTx_Execute_debits_and_credits:
  assumes "To t \<noteq> zeroAddress" and "To t \<noteq> Sender c" and "Units t \<noteq> 0"
  shows "(Units t \<le> GetBalance (Database c) (Sender c) \<and>
          unat (GetBalance (Database c) (To t)) + unat (Units t) < 2 ^ 64 \<longrightarrow>
            fst (Execute t c) = None \<and>
            unat (GetBalance (snd (Execute t c)) (Sender c)) + unat (Units t)
              = unat (GetBalance (Database c) (Sender c)) \<and>
            unat (GetBalance (snd (Execute t c)) (To t))
              = unat (GetBalance (Database c) (To t)) + unat (Units t) \<and>
            (\<forall>a. a \<noteq> Sender c \<and> a \<noteq> To t \<longrightarrow> snd (Execute t c) a = Database c a))
       \<and> (GetBalance (Database c) (Sender c) < Units t \<longrightarrow>
            fst (Execute t c) = Some InsufficientBalance \<and>
            snd (Execute t c) = Database c)"
proof (intro conjI impI)
  assume "Units t \<le> GetBalance (Database c) (Sender c) \<and>
          unat (GetBalance (Database c) (To t)) + unat (Units t) < 2 ^ 64"
  then have le: "Units t \<le> GetBalance (Database c) (Sender c)"
    and fits: "unat (GetBalance (Database c) (To t)) + unat (Units t) < 2 ^ 64"
    by simp_all
  then have ex: "Execute t c = (None, (Database c)
              (Sender c \<mapsto> GetBalance (Database c) (Sender c) - Units t,
               To t \<mapsto> GetBalance (Database c) (To t) + Units t))"
    using Execute_actionable [OF assms] by (simp add: not_less not_le)
  show "fst (Execute t c) = None"
    by (simp add: ex)
  have "GetBalance (snd (Execute t c)) (Sender c) = GetBalance (Database c) (Sender c) - Units t"
    using assms(2) by (simp add: ex GetBalance_def)
  then have "unat (GetBalance (snd (Execute t c)) (Sender c))
      = unat (GetBalance (Database c) (Sender c)) - unat (Units t)"
    using le by (simp add: unat_sub)
  moreover from le have "unat (Units t) \<le> unat (GetBalance (Database c) (Sender c))"
    by (simp add: word_le_nat_alt)
  ultimately show "unat (GetBalance (snd (Execute t c)) (Sender c)) + unat (Units t)
      = unat (GetBalance (Database c) (Sender c))"
    by simp
  have "GetBalance (snd (Execute t c)) (To t) = GetBalance (Database c) (To t) + Units t"
    by (simp add: ex GetBalance_def)
  with fits show "unat (GetBalance (snd (Execute t c)) (To t))
      = unat (GetBalance (Database c) (To t)) + unat (Units t)"
    by (simp add: unat_word_ariths)
  show "\<forall>a. a \<noteq> Sender c \<and> a \<noteq> To t \<longrightarrow> snd (Execute t c) a = Database c a"
    by (simp add: ex)
next
  assume "GetBalance (Database c) (Sender c) < Units t"
  then have "Execute t c = (Some InsufficientBalance, Database c)"
    using Execute_actionable [OF assms] by simp
  then show "fst (Execute t c) = Some InsufficientBalance" and "snd (Execute t c) = Database c"
    by simp_all
qed

theorem TransferTx_Execute_debits_and_credits_witness:
  "fst (Execute \<lparr>BaseTx = 0, To = 2, Units = 5\<rparr>
          \<lparr>Database = [1 \<mapsto> 7, 2 \<mapsto> 10], Sender = 1\<rparr>) = None
   \<and> unat (GetBalance (snd (Execute \<lparr>BaseTx = 0, To = 2, Units = 5\<rparr>
          \<lparr>Database = [1 \<mapsto> 7, 2 \<mapsto> 10], Sender = 1\<rparr>)) 1) + 5 = 7
   \<and> unat (GetBalance (snd (Execute \<lparr>BaseTx = 0, To = 2, Units = 5\<rparr>
          \<lparr>Database = [1 \<mapsto> 7, 2 \<mapsto> 10], Sender = 1\<rparr>)) 2) = 10 + 5
   \<and> fst (Execute \<lparr>BaseTx = 0, To = 2, Units = 9\<rparr>
          \<lparr>Database = [1 \<mapsto> 7, 2 \<mapsto> 10], Sender = 1\<rparr>) = Some InsufficientBalance
   \<and> snd (Execute \<lparr>BaseTx = 0, To = 2, Units = 9\<rparr>
          \<lparr>Database = [1 \<mapsto> 7, 2 \<mapsto> 10], Sender = 1\<rparr>) = [1 \<mapsto> 7, 2 \<mapsto> 10]"
  using
    TransferTx_Execute_debits_and_credits
      [of "\<lparr>BaseTx = 0, To = 2, Units = 5\<rparr>" "\<lparr>Database = [1 \<mapsto> 7, 2 \<mapsto> 10], Sender = 1\<rparr>"]
    TransferTx_Execute_debits_and_credits
      [of "\<lparr>BaseTx = 0, To = 2, Units = 9\<rparr>" "\<lparr>Database = [1 \<mapsto> 7, 2 \<mapsto> 10], Sender = 1\<rparr>"]
  by (simp add: zeroAddress_def GetBalance_def)

lemma Execute_full_recipient:
  "Execute \<lparr>BaseTx = 0, To = 2, Units = 5\<rparr>
          \<lparr>Database = [1 \<mapsto> 7, 2 \<mapsto> 18446744073709551615], Sender = 1\<rparr>
   = (Some BalanceOverflow, [1 \<mapsto> 2, 2 \<mapsto> 18446744073709551615])"
  using Execute_actionable [of "\<lparr>BaseTx = 0, To = 2, Units = 5\<rparr>"
     "\<lparr>Database = [1 \<mapsto> 7, 2 \<mapsto> 18446744073709551615], Sender = 1\<rparr>"]
  by (simp add: zeroAddress_def GetBalance_def word_less_nat_alt fun_upd_twist)

theorem TransferTx_Execute_full_recipient_counterexample:
  "To \<lparr>BaseTx = 0, To = 2, Units = 5\<rparr> \<noteq> zeroAddress
   \<and> To \<lparr>BaseTx = 0, To = 2, Units = 5\<rparr>
       \<noteq> Sender \<lparr>Database = [1 \<mapsto> 7, 2 \<mapsto> 18446744073709551615], Sender = 1\<rparr>
   \<and> Units \<lparr>BaseTx = 0, To = 2, Units = 5\<rparr>
       \<le> GetBalance [1 \<mapsto> 7, 2 \<mapsto> 18446744073709551615] 1
   \<and> fst (Execute \<lparr>BaseTx = 0, To = 2, Units = 5\<rparr>
          \<lparr>Database = [1 \<mapsto> 7, 2 \<mapsto> 18446744073709551615], Sender = 1\<rparr>)
       \<noteq> None
   \<and> GetBalance (snd (Execute \<lparr>BaseTx = 0, To = 2, Units = 5\<rparr>
          \<lparr>Database = [1 \<mapsto> 7, 2 \<mapsto> 18446744073709551615], Sender = 1\<rparr>)) 2
       = GetBalance [1 \<mapsto> 7, 2 \<mapsto> 18446744073709551615] 2"
  by (simp add: Execute_full_recipient zeroAddress_def GetBalance_def word_le_nat_alt)

text \<open>
  Claim C2. A TransferTx whose \<open>To\<close> is the sender, or the zero address, or whose
  \<open>Units\<close> is 0 fails with \<open>ErrNonActionable\<close>, and the database (every balance) is the one
  \<open>Execute\<close> was given.
\<close>

theorem TransferTx_Execute_non_actionable:
  assumes "To t = Sender c \<or> To t = zeroAddress \<or> Units t = 0"
  shows "Execute t c = (Some ErrNonActionable, Database c)"
  using assms by (auto simp: Execute_def)

theorem TransferTx_Execute_non_actionable_witness:
  "Execute \<lparr>BaseTx = 0, To = 1, Units = 5\<rparr> \<lparr>Database = [1 \<mapsto> 7], Sender = 1\<rparr>
     = (Some ErrNonActionable, [1 \<mapsto> 7])
   \<and> Execute \<lparr>BaseTx = 0, To = zeroAddress, Units = 5\<rparr> \<lparr>Database = [1 \<mapsto> 7], Sender = 1\<rparr>
     = (Some ErrNonActionable, [1 \<mapsto> 7])
   \<and> Execute \<lparr>BaseTx = 0, To = 2, Units = 0\<rparr> \<lparr>Database = [1 \<mapsto> 7], Sender = 1\<rparr>
     = (Some ErrNonActionable, [1 \<mapsto> 7])"
  using
    TransferTx_Execute_non_actionable
      [of "\<lparr>BaseTx = 0, To = 1, Units = 5\<rparr>" "\<lparr>Database = [1 \<mapsto> 7], Sender = 1\<rparr>"]
    TransferTx_Execute_non_actionable
      [of "\<lparr>BaseTx = 0, To = zeroAddress, Units = 5\<rparr>" "\<lparr>Database = [1 \<mapsto> 7], Sender = 1\<rparr>"]
    TransferTx_Execute_non_actionable
      [of "\<lparr>BaseTx = 0, To = 2, Units = 0\<rparr>" "\<lparr>Database = [1 \<mapsto> 7], Sender = 1\<rparr>"]
  by simp

text \<open>
  Claim C3, as the code has it. \<open>Execute\<close> writes the debit and then the credit, and undoes
  nothing. When it returns nil, both are in the database. When it fails on a guard or
  on the debit, the database is the one it was given. When it returns the error of a
  refused credit, the sender's balance was sufficient, the balance of \<open>To\<close> plus \<open>Units\<close> is
  above \<open>2^64 - 1\<close>, and the database is the given one with the debit written and the
  balance of \<open>To\<close> as it was; and this is what \<open>Execute\<close> returns for every actionable
  transfer with a sufficient sender balance and such a balance of \<open>To\<close>.
\<close>

theorem TransferTx_Execute_no_rollback:
  "(fst (Execute t c) = None \<longrightarrow>
      unat (GetBalance (snd (Execute t c)) (Sender c)) + unat (Units t)
        = unat (GetBalance (Database c) (Sender c)) \<and>
      unat (GetBalance (snd (Execute t c)) (To t))
        = unat (GetBalance (Database c) (To t)) + unat (Units t))
   \<and> (fst (Execute t c) \<noteq> None \<and> fst (Execute t c) \<noteq> Some BalanceOverflow \<longrightarrow>
      snd (Execute t c) = Database c)
   \<and> (fst (Execute t c) = Some BalanceOverflow \<longrightarrow>
      Units t \<le> GetBalance (Database c) (Sender c) \<and>
      2 ^ 64 \<le> unat (GetBalance (Database c) (To t)) + unat (Units t) \<and>
      snd (Execute t c)
        = (Database c)(Sender c \<mapsto> GetBalance (Database c) (Sender c) - Units t) \<and>
      unat (GetBalance (snd (Execute t c)) (Sender c)) + unat (Units t)
        = unat (GetBalance (Database c) (Sender c)) \<and>
      GetBalance (snd (Execute t c)) (To t) = GetBalance (Database c) (To t))
   \<and> (To t \<noteq> zeroAddress \<and> To t \<noteq> Sender c \<and> Units t \<noteq> 0 \<and>
       Units t \<le> GetBalance (Database c) (Sender c) \<and>
       2 ^ 64 \<le> unat (GetBalance (Database c) (To t)) + unat (Units t) \<longrightarrow>
      fst (Execute t c) = Some BalanceOverflow)"
proof (cases "To t = Sender c \<or> To t = zeroAddress \<or> Units t = 0")
  case True
  then have "Execute t c = (Some ErrNonActionable, Database c)"
    by (auto simp: Execute_def)
  with True show ?thesis
    by auto
next
  case False
  then have act: "To t \<noteq> zeroAddress" "To t \<noteq> Sender c" "Units t \<noteq> 0"
    by simp_all
  note ex = Execute_actionable [OF act]
  have debit: "unat (GetBalance (Database c) (Sender c) - Units t) + unat (Units t)
      = unat (GetBalance (Database c) (Sender c))"
    if "\<not> GetBalance (Database c) (Sender c) < Units t"
    using that by (simp add: unat_sub not_less word_le_nat_alt)
  have credit: "unat (GetBalance (Database c) (To t) + Units t)
      = unat (GetBalance (Database c) (To t)) + unat (Units t)"
    if "\<not> 2 ^ 64 \<le> unat (GetBalance (Database c) (To t)) + unat (Units t)"
    using that by (simp add: unat_word_ariths not_le)
  consider (poor) "GetBalance (Database c) (Sender c) < Units t"
    | (full) "\<not> GetBalance (Database c) (Sender c) < Units t"
        "2 ^ 64 \<le> unat (GetBalance (Database c) (To t)) + unat (Units t)"
    | (fits) "\<not> GetBalance (Database c) (Sender c) < Units t"
        "\<not> 2 ^ 64 \<le> unat (GetBalance (Database c) (To t)) + unat (Units t)"
    by blast
  then show ?thesis
  proof cases
    case poor
    then have "Execute t c = (Some InsufficientBalance, Database c)"
      using ex by simp
    with poor show ?thesis
      by (simp add: not_le)
  next
    case full
    then have "Execute t c = (Some BalanceOverflow,
        (Database c)(Sender c \<mapsto> GetBalance (Database c) (Sender c) - Units t))"
      using ex by simp
    with full act debit show ?thesis
      by (simp add: GetBalance_def not_less)
  next
    case fits
    then have "Execute t c = (None, (Database c)
        (Sender c \<mapsto> GetBalance (Database c) (Sender c) - Units t,
         To t \<mapsto> GetBalance (Database c) (To t) + Units t))"
      using ex by simp
    with fits act debit credit show ?thesis
      by (simp add: GetBalance_def)
  qed
qed

theorem TransferTx_Execute_no_rollback_witness:
  "fst (Execute \<lparr>BaseTx = 0, To = 2, Units = 5\<rparr> \<lparr>Database = [1 \<mapsto> 7], Sender = 1\<rparr>) = None
   \<and> unat (GetBalance (snd (Execute \<lparr>BaseTx = 0, To = 2, Units = 5\<rparr>
        \<lparr>Database = [1 \<mapsto> 7], Sender = 1\<rparr>)) 1) + 5 = 7
   \<and> unat (GetBalance (snd (Execute \<lparr>BaseTx = 0, To = 2, Units = 5\<rparr>
        \<lparr>Database = [1 \<mapsto> 7], Sender = 1\<rparr>)) 2) = 0 + 5
   \<and> fst (Execute \<lparr>BaseTx = 0, To = 2, Units = 9\<rparr> \<lparr>Database = [1 \<mapsto> 7], Sender = 1\<rparr>)
       = Some InsufficientBalance
   \<and> snd (Execute \<lparr>BaseTx = 0, To = 2, Units = 9\<rparr> \<lparr>Database = [1 \<mapsto> 7], Sender = 1\<rparr>)
       = [1 \<mapsto> 7]
   \<and> fst (Execute \<lparr>BaseTx = 0, To = 2, Units = 5\<rparr>
          \<lparr>Database = [1 \<mapsto> 7, 2 \<mapsto> 18446744073709551615], Sender = 1\<rparr>)
       = Some BalanceOverflow
   \<and> snd (Execute \<lparr>BaseTx = 0, To = 2, Units = 5\<rparr>
          \<lparr>Database = [1 \<mapsto> 7, 2 \<mapsto> 18446744073709551615], Sender = 1\<rparr>)
       = [1 \<mapsto> 7, 2 \<mapsto> 18446744073709551615](1 \<mapsto> 7 - 5)"
proof -
  note ok = TransferTx_Execute_no_rollback
      [of "\<lparr>BaseTx = 0, To = 2, Units = 5\<rparr>" "\<lparr>Database = [1 \<mapsto> 7], Sender = 1\<rparr>"]
  note poor = TransferTx_Execute_no_rollback
      [of "\<lparr>BaseTx = 0, To = 2, Units = 9\<rparr>" "\<lparr>Database = [1 \<mapsto> 7], Sender = 1\<rparr>"]
  note full = TransferTx_Execute_no_rollback
      [of "\<lparr>BaseTx = 0, To = 2, Units = 5\<rparr>"
          "\<lparr>Database = [1 \<mapsto> 7, 2 \<mapsto> 18446744073709551615], Sender = 1\<rparr>"]
  have r1: "fst (Execute \<lparr>BaseTx = 0, To = 2, Units = 5\<rparr> \<lparr>Database = [1 \<mapsto> 7], Sender = 1\<rparr>) = None"
    and r2: "fst (Execute \<lparr>BaseTx = 0, To = 2, Units = 9\<rparr> \<lparr>Database = [1 \<mapsto> 7], Sender = 1\<rparr>)
       = Some InsufficientBalance"
    by (simp_all add: Execute_def ModifyBalance_def SetBalance_def GetBalance_def zeroAddress_def
          Let_def word_less_nat_alt)
  have r3: "fst (Execute \<lparr>BaseTx = 0, To = 2, Units = 5\<rparr>
          \<lparr>Database = [1 \<mapsto> 7, 2 \<mapsto> 18446744073709551615], Sender = 1\<rparr>)
       = Some BalanceOverflow"
    using full [THEN conjunct2, THEN conjunct2, THEN conjunct2]
    by (simp add: zeroAddress_def GetBalance_def word_le_nat_alt)
  from ok [THEN conjunct1] r1 poor [THEN conjunct2, THEN conjunct1] r2
    full [THEN conjunct2, THEN conjunct2, THEN conjunct1] r3
  show ?thesis
    by (simp add: GetBalance_def)
qed

theorem TransferTx_Execute_debit_without_credit_counterexample:
  "fst (Execute \<lparr>BaseTx = 0, To = 2, Units = 5\<rparr>
          \<lparr>Database = [1 \<mapsto> 7, 2 \<mapsto> 18446744073709551615], Sender = 1\<rparr>)
     = Some BalanceOverflow
   \<and> GetBalance [1 \<mapsto> 7, 2 \<mapsto> 18446744073709551615] 1 = 7
   \<and> GetBalance (snd (Execute \<lparr>BaseTx = 0, To = 2, Units = 5\<rparr>
          \<lparr>Database = [1 \<mapsto> 7, 2 \<mapsto> 18446744073709551615], Sender = 1\<rparr>)) 1 = 2
   \<and> GetBalance (snd (Execute \<lparr>BaseTx = 0, To = 2, Units = 5\<rparr>
          \<lparr>Database = [1 \<mapsto> 7, 2 \<mapsto> 18446744073709551615], Sender = 1\<rparr>)) 2
     = GetBalance [1 \<mapsto> 7, 2 \<mapsto> 18446744073709551615] 2"
  by (simp add: Execute_full_recipient GetBalance_def)

section \<open>Properties of Genesis.Load and Genesis.Verify\<close>

lemma Load_airdrop_loop_Some [simp]:
  "Load_airdrop_loop u (Some alloc # rest) db =
     Load_airdrop_loop u rest (db(Airdrop.Address alloc \<mapsto> u))"
  by (simp add: SetBalance_def)

lemma Load_custom_loop_Some [simp]:
  "Load_custom_loop (Some alloc # rest) db =
     Load_custom_loop rest (db(CustomAllocation.Address alloc \<mapsto> Balance alloc))"
  by (simp add: SetBalance_def)

declare Load_airdrop_loop.simps(3) [simp del] Load_custom_loop.simps(3) [simp del]

lemma Load_airdrop_loop_written:
  "Load_airdrop_loop u xs db = (None, db') \<Longrightarrow>
   db' a = (if \<exists>al. Some al \<in> set xs \<and> Airdrop.Address al = a then Some u else db a)"
proof (induction xs arbitrary: db)
  case Nil
  then show ?case by simp
next
  case (Cons x xs)
  show ?case
  proof (cases x)
    case None
    with Cons.prems show ?thesis by simp
  next
    case (Some alloc)
    with Cons.prems
    have "Load_airdrop_loop u xs (db(Airdrop.Address alloc \<mapsto> u)) = (None, db')"
      by simp
    from Cons.IH [OF this] Some show ?thesis by auto
  qed
qed

lemma Load_custom_loop_untouched:
  "Load_custom_loop xs db = (None, db') \<Longrightarrow>
   \<forall>c. Some c \<in> set xs \<longrightarrow> CustomAllocation.Address c \<noteq> a \<Longrightarrow> db' a = db a"
proof (induction xs arbitrary: db)
  case Nil
  then show ?case by simp
next
  case (Cons x xs)
  show ?case
  proof (cases x)
    case None
    with Cons.prems show ?thesis by simp
  next
    case (Some alloc)
    with Cons.prems(1)
    have run: "Load_custom_loop xs (db(CustomAllocation.Address alloc \<mapsto> Balance alloc)) = (None, db')"
      by simp
    from Cons.prems(2) have rest: "\<forall>c. Some c \<in> set xs \<longrightarrow> CustomAllocation.Address c \<noteq> a"
      by simp
    from Cons.prems(2) Some have "CustomAllocation.Address alloc \<noteq> a"
      by simp
    with Cons.IH [OF run rest] show ?thesis by simp
  qed
qed

lemma Load_custom_loop_last:
  "Load_custom_loop (pre @ Some alloc # post) db = (None, db') \<Longrightarrow>
   \<forall>c. Some c \<in> set post \<longrightarrow> CustomAllocation.Address c \<noteq> CustomAllocation.Address alloc \<Longrightarrow>
   db' (CustomAllocation.Address alloc) = Some (Balance alloc)"
proof (induction pre arbitrary: db)
  case Nil
  then have run: "Load_custom_loop post (db(CustomAllocation.Address alloc \<mapsto> Balance alloc)) = (None, db')"
    by simp
  from Load_custom_loop_untouched [OF run Nil.prems(2)] show ?case by simp
next
  case (Cons x pre)
  show ?case
  proof (cases x)
    case None
    with Cons.prems(1) show ?thesis by simp
  next
    case (Some c)
    with Cons.prems(1)
    have "Load_custom_loop (pre @ Some alloc # post)
            (db(CustomAllocation.Address c \<mapsto> Balance c)) = (None, db')"
      by simp
    from Cons.IH [OF this Cons.prems(2)] show ?thesis .
  qed
qed

lemma Load_hash_agrees:
  assumes "AirdropHash g \<noteq> []" and "keccakHex airdropData = AirdropHash g"
    and "unmarshal airdropData = Inr allocs"
  shows "Load keccakHex unmarshal g db airdropData =
     (case Load_airdrop_loop (AirdropUnits g) allocs db of
        (Some err, db1) \<Rightarrow> (Some err, db1)
      | (None, db1) \<Rightarrow> Load_custom_loop (CustomAllocation g) db1)"
  using assms by (simp add: Load_def Let_def)

lemma Load_no_airdrop:
  "AirdropHash g = [] \<Longrightarrow>
   Load keccakHex unmarshal g db airdropData = Load_custom_loop (CustomAllocation g) db"
  by (simp add: Load_def)

lemma Load_airdrop_loop_all:
  "Load_airdrop_loop u (map Some als) db
     = (None, fold (\<lambda>al d. d(Airdrop.Address al \<mapsto> u)) als db)"
  by (induction als arbitrary: db) simp_all

lemma Load_airdrop_loop_nil_entry:
  "Load_airdrop_loop u (map Some pre @ None # post) db
     = (Some NilDereference, fold (\<lambda>al d. d(Airdrop.Address al \<mapsto> u)) pre db)"
  by (induction pre arbitrary: db) simp_all

lemma Load_custom_loop_all:
  "Load_custom_loop (map Some cs) db
     = (None, fold (\<lambda>c d. d(CustomAllocation.Address c \<mapsto> Balance c)) cs db)"
  by (induction cs arbitrary: db) simp_all

text \<open>
  Claim C4, as the code has it. For a genesis that declares an airdrop hash
  (\<open>AirdropHash\<close> not empty): when the hash of the payload differs from \<open>AirdropHash\<close>,
  \<open>Load\<close> returns the mismatch error and the database is untouched. When the hashes
  agree, a payload that does not parse gives the parse error with the database
  untouched; a payload that parses to the address entries \<open>als\<close> (none of them null)
  always passes the airdrop loop, which sets the balance of each listed address to
  \<open>AirdropUnits\<close>, by overwriting: the custom allocations are applied to exactly that
  state, and with custom entries \<open>cs\<close> (none null) \<open>Load\<close> returns nil, every listed address
  that no custom entry names ending with the balance \<open>AirdropUnits\<close>. A null entry ends
  \<open>Load\<close> in the nil-pointer panic, after the entries before it have been written.
\<close>

theorem Genesis_Load_airdrop_hash_checked:
  assumes "AirdropHash g \<noteq> []"
  shows "(keccakHex airdropData \<noteq> AirdropHash g \<longrightarrow>
            Load keccakHex unmarshal g db airdropData
              = (Some (HashMismatch (AirdropHash g) (keccakHex airdropData)), db))
       \<and> (keccakHex airdropData = AirdropHash g \<longrightarrow>
            (\<forall>err. unmarshal airdropData = Inl err \<longrightarrow>
               Load keccakHex unmarshal g db airdropData = (Some err, db)) \<and>
            (\<forall>als. unmarshal airdropData = Inr (map Some als) \<longrightarrow>
               Load keccakHex unmarshal g db airdropData
                 = Load_custom_loop (CustomAllocation g)
                     (fold (\<lambda>al d. d(Airdrop.Address al \<mapsto> AirdropUnits g)) als db) \<and>
               (\<forall>al. al \<in> set als \<longrightarrow>
                  GetBalance (fold (\<lambda>al d. d(Airdrop.Address al \<mapsto> AirdropUnits g)) als db)
                    (Airdrop.Address al) = AirdropUnits g) \<and>
               (\<forall>a. a \<notin> Airdrop.Address ` set als \<longrightarrow>
                  fold (\<lambda>al d. d(Airdrop.Address al \<mapsto> AirdropUnits g)) als db a = db a) \<and>
               (\<forall>cs. CustomAllocation g = map Some cs \<longrightarrow>
                  Load keccakHex unmarshal g db airdropData
                    = (None, fold (\<lambda>c d. d(CustomAllocation.Address c \<mapsto> Balance c)) cs
                               (fold (\<lambda>al d. d(Airdrop.Address al \<mapsto> AirdropUnits g)) als db)) \<and>
                  (\<forall>al. al \<in> set als \<and>
                        Airdrop.Address al \<notin> CustomAllocation.Address ` set cs \<longrightarrow>
                     GetBalance (snd (Load keccakHex unmarshal g db airdropData))
                       (Airdrop.Address al) = AirdropUnits g))) \<and>
            (\<forall>pre post. unmarshal airdropData = Inr (map Some pre @ None # post) \<longrightarrow>
               Load keccakHex unmarshal g db airdropData
                 = (Some NilDereference,
                    fold (\<lambda>al d. d(Airdrop.Address al \<mapsto> AirdropUnits g)) pre db)))"
proof (intro conjI impI allI)
  assume "keccakHex airdropData \<noteq> AirdropHash g"
  with assms show "Load keccakHex unmarshal g db airdropData
      = (Some (HashMismatch (AirdropHash g) (keccakHex airdropData)), db)"
    by (auto simp: Load_def Let_def)
next
  fix err
  assume "keccakHex airdropData = AirdropHash g" and "unmarshal airdropData = Inl err"
  with assms show "Load keccakHex unmarshal g db airdropData = (Some err, db)"
    by (simp add: Load_def Let_def)
next
  fix pre post
  assume "keccakHex airdropData = AirdropHash g"
    and "unmarshal airdropData = Inr (map Some pre @ None # post)"
  with assms show "Load keccakHex unmarshal g db airdropData
      = (Some NilDereference, fold (\<lambda>al d. d(Airdrop.Address al \<mapsto> AirdropUnits g)) pre db)"
    by (simp add: Load_def Let_def Load_airdrop_loop_nil_entry)
next
  fix als
  assume h: "keccakHex airdropData = AirdropHash g"
    and u: "unmarshal airdropData = Inr (map Some als)"
  let ?db1 = "fold (\<lambda>al d. d(Airdrop.Address al \<mapsto> AirdropUnits g)) als db"
  have loop: "Load_airdrop_loop (AirdropUnits g) (map Some als) db = (None, ?db1)"
    by (rule Load_airdrop_loop_all)
  show eq: "Load keccakHex unmarshal g db airdropData
      = Load_custom_loop (CustomAllocation g) ?db1"
    using assms h u by (simp add: Load_def Let_def Load_airdrop_loop_all)
  {
    fix al
    assume "al \<in> set als"
    with Load_airdrop_loop_written [OF loop, of "Airdrop.Address al"]
    show written: "GetBalance ?db1 (Airdrop.Address al) = AirdropUnits g"
      by (auto simp: GetBalance_def)
  next
    fix a
    assume "a \<notin> Airdrop.Address ` set als"
    with Load_airdrop_loop_written [OF loop, of a]
    show "?db1 a = db a"
      by auto
  next
    fix cs
    assume cs: "CustomAllocation g = map Some cs"
    then show all: "Load keccakHex unmarshal g db airdropData
        = (None, fold (\<lambda>c d. d(CustomAllocation.Address c \<mapsto> Balance c)) cs ?db1)"
      by (simp add: eq Load_custom_loop_all)
    fix al
    assume al: "al \<in> set als \<and> Airdrop.Address al \<notin> CustomAllocation.Address ` set cs"
    have run: "Load_custom_loop (map Some cs) ?db1
        = (None, snd (Load keccakHex unmarshal g db airdropData))"
      by (simp add: all Load_custom_loop_all)
    have "\<forall>c. Some c \<in> set (map Some cs) \<longrightarrow> CustomAllocation.Address c \<noteq> Airdrop.Address al"
      using al by (auto simp: image_iff)
    from Load_custom_loop_untouched [OF run this]
    have "snd (Load keccakHex unmarshal g db airdropData) (Airdrop.Address al)
        = ?db1 (Airdrop.Address al)" .
    moreover from al Load_airdrop_loop_written [OF loop, of "Airdrop.Address al"]
    have "?db1 (Airdrop.Address al) = Some (AirdropUnits g)"
      by auto
    ultimately show "GetBalance (snd (Load keccakHex unmarshal g db airdropData))
        (Airdrop.Address al) = AirdropUnits g"
      by (simp add: GetBalance_def)
  }
qed

theorem Genesis_Load_airdrop_hash_checked_witness:
  "Load (\<lambda>_. ''0xcd'') (\<lambda>_. Inr [Some \<lparr>Airdrop.Address = 1\<rparr>, Some \<lparr>Airdrop.Address = 2\<rparr>])
        (DefaultGenesis\<lparr>AirdropHash := ''0xab'', AirdropUnits := 10,
          CustomAllocation := [Some \<lparr>CustomAllocation.Address = 2, Balance = 5\<rparr>]\<rparr>) Map.empty ''[]''
     = (Some (HashMismatch ''0xab'' ''0xcd''), Map.empty)
   \<and> Load (\<lambda>_. ''0xab'') (\<lambda>_. Inl (JSONError ''unexpected end of JSON input''))
        (DefaultGenesis\<lparr>AirdropHash := ''0xab'', AirdropUnits := 10,
          CustomAllocation := [Some \<lparr>CustomAllocation.Address = 2, Balance = 5\<rparr>]\<rparr>) Map.empty ''[]''
     = (Some (JSONError ''unexpected end of JSON input''), Map.empty)
   \<and> Load (\<lambda>_. ''0xab'') (\<lambda>_. Inr [Some \<lparr>Airdrop.Address = 1\<rparr>, Some \<lparr>Airdrop.Address = 2\<rparr>])
        (DefaultGenesis\<lparr>AirdropHash := ''0xab'', AirdropUnits := 10,
          CustomAllocation := [Some \<lparr>CustomAllocation.Address = 2, Balance = 5\<rparr>]\<rparr>) Map.empty ''[]''
     = (None, [1 \<mapsto> 10, 2 \<mapsto> 5])
   \<and> GetBalance (snd (Load (\<lambda>_. ''0xab'') (\<lambda>_. Inr [Some \<lparr>Airdrop.Address = 1\<rparr>, Some \<lparr>Airdrop.Address = 2\<rparr>])
        (DefaultGenesis\<lparr>AirdropHash := ''0xab'', AirdropUnits := 10,
          CustomAllocation := [Some \<lparr>CustomAllocation.Address = 2, Balance = 5\<rparr>]\<rparr>) Map.empty ''[]'')) 1 = 10
   \<and> Load (\<lambda>_. ''0xab'') (\<lambda>_. Inr [Some \<lparr>Airdrop.Address = 1\<rparr>, None])
        (DefaultGenesis\<lparr>AirdropHash := ''0xab'', AirdropUnits := 10,
          CustomAllocation := [Some \<lparr>CustomAllocation.Address = 2, Balance = 5\<rparr>]\<rparr>) Map.empty ''[]''
     = (Some NilDereference, [1 \<mapsto> 10])"
proof -
  have declared: "AirdropHash (DefaultGenesis\<lparr>AirdropHash := ''0xab'', AirdropUnits := 10,
          CustomAllocation := [Some \<lparr>CustomAllocation.Address = 2, Balance = 5\<rparr>]\<rparr>) \<noteq> []"
    by simp
  note differs = Genesis_Load_airdrop_hash_checked
      [where g = "(DefaultGenesis\<lparr>AirdropHash := ''0xab'', AirdropUnits := 10,
          CustomAllocation := [Some \<lparr>CustomAllocation.Address = 2, Balance = 5\<rparr>]\<rparr>)"
        and keccakHex = "\<lambda>_. ''0xcd''" and airdropData = "''[]''" and db = Map.empty
        and unmarshal = "(\<lambda>_. Inr [Some \<lparr>Airdrop.Address = 1\<rparr>, Some \<lparr>Airdrop.Address = 2\<rparr>])", OF declared, THEN conjunct1]
  note broken = Genesis_Load_airdrop_hash_checked
      [where g = "(DefaultGenesis\<lparr>AirdropHash := ''0xab'', AirdropUnits := 10,
          CustomAllocation := [Some \<lparr>CustomAllocation.Address = 2, Balance = 5\<rparr>]\<rparr>)"
        and keccakHex = "\<lambda>_. ''0xab''" and airdropData = "''[]''" and db = Map.empty
        and unmarshal = "\<lambda>_. Inl (JSONError ''unexpected end of JSON input'')",
        OF declared, THEN conjunct2, rule_format, THEN conjunct1, rule_format,
        of "JSONError ''unexpected end of JSON input''"]
  note agrees = Genesis_Load_airdrop_hash_checked
      [where g = "(DefaultGenesis\<lparr>AirdropHash := ''0xab'', AirdropUnits := 10,
          CustomAllocation := [Some \<lparr>CustomAllocation.Address = 2, Balance = 5\<rparr>]\<rparr>)"
        and keccakHex = "\<lambda>_. ''0xab''" and airdropData = "''[]''" and db = Map.empty
        and unmarshal = "(\<lambda>_. Inr [Some \<lparr>Airdrop.Address = 1\<rparr>, Some \<lparr>Airdrop.Address = 2\<rparr>])",
        OF declared, THEN conjunct2, rule_format, THEN conjunct2, THEN conjunct1, rule_format,
        of "[\<lparr>Airdrop.Address = 1\<rparr>, \<lparr>Airdrop.Address = 2\<rparr>]",
        THEN conjunct2, THEN conjunct2, THEN conjunct2, rule_format,
        of "[\<lparr>CustomAllocation.Address = 2, Balance = 5\<rparr>]"]
  note null = Genesis_Load_airdrop_hash_checked
      [where g = "(DefaultGenesis\<lparr>AirdropHash := ''0xab'', AirdropUnits := 10,
          CustomAllocation := [Some \<lparr>CustomAllocation.Address = 2, Balance = 5\<rparr>]\<rparr>)"
        and keccakHex = "\<lambda>_. ''0xab''" and airdropData = "''[]''" and db = Map.empty
        and unmarshal = "\<lambda>_. Inr [Some \<lparr>Airdrop.Address = 1\<rparr>, None]",
        OF declared, THEN conjunct2, rule_format, THEN conjunct2, THEN conjunct2, rule_format,
        of "[\<lparr>Airdrop.Address = 1\<rparr>]" "[]"]
  from differs broken agrees null show ?thesis
    by (simp add: DefaultGenesis_def GetBalance_def)
qed

theorem Genesis_Load_airdrop_overwrites_counterexample:
  "Load (\<lambda>_. ''0xab'') (\<lambda>_. Inr [Some \<lparr>Airdrop.Address = 1\<rparr>])
        (DefaultGenesis\<lparr>AirdropHash := ''0xab'', AirdropUnits := 10\<rparr>) [1 \<mapsto> 100] ''[]''
     = (None, [1 \<mapsto> 10])
   \<and> GetBalance [1 \<mapsto> 10] 1 \<noteq> GetBalance [1 \<mapsto> 100] 1 + 10
   \<and> Load (\<lambda>_. ''0xab'') (\<lambda>_. Inr [Some \<lparr>Airdrop.Address = 1\<rparr>, Some \<lparr>Airdrop.Address = 1\<rparr>])
        (DefaultGenesis\<lparr>AirdropHash := ''0xab'', AirdropUnits := 10\<rparr>) Map.empty ''[]''
     = (None, [1 \<mapsto> 10])
   \<and> GetBalance [1 \<mapsto> 10] 1 \<noteq> 10 + 10
   \<and> Load (\<lambda>_. ''0xab'') (\<lambda>_. Inr [None, Some \<lparr>Airdrop.Address = 1\<rparr>])
        (DefaultGenesis\<lparr>AirdropHash := ''0xab'', AirdropUnits := 10\<rparr>) Map.empty ''[]''
     = (Some NilDereference, Map.empty)"
  by (simp add: Load_def DefaultGenesis_def GetBalance_def)

text \<open>
  Claim C5, as the code has it. The custom allocations are applied after the airdrop,
  each by \<open>SetBalance\<close>, which writes the declared balance: whenever \<open>Load\<close> returns nil,
  an address of the custom list ends with exactly the balance of its last custom entry,
  whatever the airdrop wrote for it before. The custom balance replaces the airdrop
  amount; it is not added to it.
\<close>

theorem Genesis_Load_custom_allocation_overrides:
  assumes "Load keccakHex unmarshal g db airdropData = (None, db')"
    and "CustomAllocation g = pre @ Some alloc # post"
    and "\<forall>c. Some c \<in> set post \<longrightarrow>
           CustomAllocation.Address c \<noteq> CustomAllocation.Address alloc"
  shows "GetBalance db' (CustomAllocation.Address alloc) = Balance alloc"
proof -
  have "\<exists>db1. Load_custom_loop (CustomAllocation g) db1 = (None, db')"
    using assms(1)
    by (auto simp: Load_def Let_def split: if_splits sum.splits prod.splits option.splits)
  then obtain db1 where "Load_custom_loop (pre @ Some alloc # post) db1 = (None, db')"
    using assms(2) by auto
  from Load_custom_loop_last [OF this assms(3)] show ?thesis
    by (simp add: GetBalance_def)
qed

theorem Genesis_Load_custom_allocation_overrides_witness:
  "Load (\<lambda>_. ''0xab'') (\<lambda>_. Inr [Some \<lparr>Airdrop.Address = 1\<rparr>, Some \<lparr>Airdrop.Address = 2\<rparr>])
        (DefaultGenesis\<lparr>AirdropHash := ''0xab'', AirdropUnits := 10,
          CustomAllocation := [Some \<lparr>CustomAllocation.Address = 2, Balance = 5\<rparr>]\<rparr>) Map.empty ''[]''
     = (None, [1 \<mapsto> 10, 2 \<mapsto> 5])
   \<and> GetBalance [1 \<mapsto> 10, 2 \<mapsto> 5] 2 = 5"
proof -
  have run: "Load (\<lambda>_. ''0xab'') (\<lambda>_. Inr [Some \<lparr>Airdrop.Address = 1\<rparr>, Some \<lparr>Airdrop.Address = 2\<rparr>])
        (DefaultGenesis\<lparr>AirdropHash := ''0xab'', AirdropUnits := 10,
          CustomAllocation := [Some \<lparr>CustomAllocation.Address = 2, Balance = 5\<rparr>]\<rparr>) Map.empty ''[]''
     = (None, [1 \<mapsto> 10, 2 \<mapsto> 5])"
    by (simp add: Load_def DefaultGenesis_def)
  have "GetBalance [1 \<mapsto> 10, 2 \<mapsto> 5]
          (CustomAllocation.Address \<lparr>CustomAllocation.Address = 2, Balance = 5\<rparr>)
        = Balance \<lparr>CustomAllocation.Address = 2, Balance = 5\<rparr>"
    by (rule Genesis_Load_custom_allocation_overrides [OF run, where pre = "[]" and post = "[]"])
       (simp_all add: DefaultGenesis_def)
  with run show ?thesis by simp
qed

theorem Genesis_Load_custom_allocation_added_counterexample:
  "Load (\<lambda>_. ''0xab'') (\<lambda>_. Inr [Some \<lparr>Airdrop.Address = 1\<rparr>, Some \<lparr>Airdrop.Address = 2\<rparr>])
        (DefaultGenesis\<lparr>AirdropHash := ''0xab'', AirdropUnits := 10,
          CustomAllocation := [Some \<lparr>CustomAllocation.Address = 2, Balance = 5\<rparr>]\<rparr>) Map.empty ''[]''
     = (None, [1 \<mapsto> 10, 2 \<mapsto> 5])
   \<and> GetBalance (snd (Load (\<lambda>_. ''0xab'') (\<lambda>_. Inr [Some \<lparr>Airdrop.Address = 1\<rparr>, Some \<lparr>Airdrop.Address = 2\<rparr>])
        (DefaultGenesis\<lparr>AirdropHash := ''0xab'', AirdropUnits := 10,
          CustomAllocation := [Some \<lparr>CustomAllocation.Address = 2, Balance = 5\<rparr>]\<rparr>) Map.empty ''[]'')) 2 \<noteq> 10 + 5"
  by (simp add: Load_def DefaultGenesis_def GetBalance_def)

text \<open>
  Claim C6, as the code has it. The magic check is \<open>Verify\<close>, a method of its own that
  takes no database: it returns \<open>ErrInvalidMagic\<close> exactly when \<open>Magic\<close> is 0. \<open>Load\<close> never
  reads \<open>Magic\<close>: its result is the same for every value of the field, 0 included.
\<close>

theorem Genesis_Verify_checks_magic_Load_does_not:
  "(Magic g = 0 \<longrightarrow> Verify g = Some ErrInvalidMagic)
   \<and> (Magic g \<noteq> 0 \<longrightarrow> Verify g = None)
   \<and> Load keccakHex unmarshal (g\<lparr>Magic := m\<rparr>) db airdropData
       = Load keccakHex unmarshal g db airdropData"
  by (simp add: Verify_def Load_def Let_def
        cong: prod.case_cong option.case_cong sum.case_cong if_cong)

theorem Genesis_Verify_checks_magic_Load_does_not_witness:
  "Verify DefaultGenesis = Some ErrInvalidMagic
   \<and> Verify (DefaultGenesis\<lparr>Magic := 1\<rparr>) = None
   \<and> Load (\<lambda>_. []) (\<lambda>_. Inr []) (DefaultGenesis\<lparr>Magic := 0\<rparr>) Map.empty []
       = Load (\<lambda>_. []) (\<lambda>_. Inr []) DefaultGenesis Map.empty []"
  using
    Genesis_Verify_checks_magic_Load_does_not [of DefaultGenesis "\<lambda>_. []" "\<lambda>_. Inr []" 0 Map.empty "[]"]
    Genesis_Verify_checks_magic_Load_does_not [of "DefaultGenesis\<lparr>Magic := 1\<rparr>"]
  by (simp add: DefaultGenesis_def)

theorem Genesis_Load_zero_magic_counterexample:
  "Magic (DefaultGenesis\<lparr>CustomAllocation :=
        [Some \<lparr>CustomAllocation.Address = 1, Balance = 5\<rparr>]\<rparr>) = 0
   \<and> Load (\<lambda>_. []) (\<lambda>_. Inr [])
        (DefaultGenesis\<lparr>CustomAllocation :=
           [Some \<lparr>CustomAllocation.Address = 1, Balance = 5\<rparr>]\<rparr>) Map.empty []
       = (None, [1 \<mapsto> 5])"
  by (simp add: Load_def DefaultGenesis_def)

section \<open>Properties of the mining loop\<close>

lemma baseOf_baseTxs_update [simp]: "baseOf (h\<lparr>baseTxs := f\<rparr>) u = baseOf h u"
  by (simp add: baseOf_def split: UnsignedTransaction.splits)

lemma BaseTx_updates_commute:
  "x\<lparr>Graffiti := g, BlockID := c\<rparr> = x\<lparr>BlockID := c, Graffiti := g\<rparr>"
  by (cases x) simp

lemma baseOf_SetBlockID [simp]: "baseOf (SetBlockID h u c) u' = baseOf h u'"
  by (simp add: SetBlockID_def)

lemma baseOf_SetGraffiti [simp]: "baseOf (SetGraffiti h u g) u' = baseOf h u'"
  by (simp add: SetGraffiti_def)

lemma SetGraffiti_SetGraffiti [simp]: "SetGraffiti (SetGraffiti h u g) u g' = SetGraffiti h u g'"
  by (simp add: SetGraffiti_def)

lemma SetBlockID_SetBlockID [simp]: "SetBlockID (SetBlockID h u c) u c' = SetBlockID h u c'"
  by (simp add: SetBlockID_def)

lemma SetBlockID_SetGraffiti: "SetBlockID (SetGraffiti h u g) u c = SetGraffiti (SetBlockID h u c) u g"
  by (simp add: SetBlockID_def SetGraffiti_def BaseTx_updates_commute)

lemma graffiti_loop_step:
  "mine_graffiti_loop (Suc n) dp ctx rq utx cb g (h, t) =
     (if ctx_Err ctx t \<noteq> None then Some (None, h, t)
      else case validBlockID rq t cb of
        Inl err \<Rightarrow> Some (Some (Inl err), h, Suc t)
      | Inr v \<Rightarrow>
          if \<not> v then Some (None, h, Suc t)
          else (case meets_estimate dp rq (SetGraffiti h utx g) utx (Suc t) of
                  Some True \<Rightarrow> Some (Some (Inr utx), SetGraffiti h utx g, Suc (Suc t))
                | Some False \<Rightarrow>
                    mine_graffiti_loop n dp ctx rq utx cb (g + 1) (SetGraffiti h utx g, Suc (Suc t))
                | None \<Rightarrow>
                    (case UnsignedBytes dp (contents (SetGraffiti h utx g) utx) of
                       Inl err \<Rightarrow> Some (Some (Inl err), SetGraffiti h utx g, Suc t)
                     | Inr b \<Rightarrow>
                         (case difficultyEstimate rq (Suc t) of
                            Inl err \<Rightarrow> Some (Some (Inl err), SetGraffiti h utx g, Suc (Suc t))
                          | Inr est \<Rightarrow> None))))"
  by (simp add: meets_estimate_def difficultyEstimate_def Let_def split: sum.splits)

lemma graffiti_loop_returns_tx:
  "mine_graffiti_loop n dp ctx rq utx cb g (hh, t) = Some (Some (Inr p), h', t') \<Longrightarrow>
   p = utx \<and> (\<exists>k. h' = SetGraffiti hh utx (g + of_nat k) \<and> t' = t + 2 * k + 2 \<and>
      (\<forall>i\<le>k. ctx_Err ctx (t + 2 * i) = None \<and> validBlockID rq (t + 2 * i) cb = Inr True) \<and>
      (\<forall>i<k. meets_estimate dp rq (SetGraffiti hh utx (g + of_nat i)) utx (t + 2 * i + 1) = Some False) \<and>
      meets_estimate dp rq h' utx (t + 2 * k + 1) = Some True)"
proof (induction n arbitrary: g hh t)
  case 0
  then show ?case by simp
next
  case (Suc n)
  note run = Suc.prems [unfolded graffiti_loop_step]
  from run have live: "ctx_Err ctx t = None"
    by (simp split: if_splits)
  from run live have valid: "validBlockID rq t cb = Inr True"
    by (simp split: sum.splits if_splits)
  let ?h1 = "SetGraffiti hh utx g"
  from run live valid
  consider (found) "meets_estimate dp rq ?h1 utx (Suc t) = Some True"
      "p = utx" "h' = ?h1" "t' = Suc (Suc t)"
    | (more) "meets_estimate dp rq ?h1 utx (Suc t) = Some False"
      "mine_graffiti_loop n dp ctx rq utx cb (g + 1) (?h1, Suc (Suc t)) = Some (Some (Inr p), h', t')"
    by (auto split: option.splits bool.splits sum.splits)
  then show ?case
  proof cases
    case found
    with live valid show ?thesis
      by (intro conjI exI [of _ 0]) simp_all
  next
    case more
    from Suc.IH [OF more(2)] obtain k where p: "p = utx"
      and h': "h' = SetGraffiti ?h1 utx (g + 1 + of_nat k)"
      and t': "t' = Suc (Suc t) + 2 * k + 2"
      and alive: "\<forall>i\<le>k. ctx_Err ctx (Suc (Suc t) + 2 * i) = None
                   \<and> validBlockID rq (Suc (Suc t) + 2 * i) cb = Inr True"
      and below: "\<forall>i<k. meets_estimate dp rq (SetGraffiti ?h1 utx (g + 1 + of_nat i)) utx
                      (Suc (Suc t) + 2 * i + 1) = Some False"
      and met: "meets_estimate dp rq h' utx (Suc (Suc t) + 2 * k + 1) = Some True"
      by blast
    have a: "ctx_Err ctx (t + 2 * i) = None \<and> validBlockID rq (t + 2 * i) cb = Inr True"
      if "i \<le> Suc k" for i
    proof (cases i)
      case 0
      with live valid show ?thesis by simp
    next
      case (Suc j)
      with that alive [rule_format, of j] show ?thesis by simp
    qed
    have b: "meets_estimate dp rq (SetGraffiti hh utx (g + of_nat i)) utx (t + 2 * i + 1) = Some False"
      if "i < Suc k" for i
    proof (cases i)
      case 0
      with more(1) show ?thesis by simp
    next
      case (Suc j)
      with that below [rule_format, of j] show ?thesis by (simp add: add.assoc)
    qed
    show ?thesis
    proof (intro conjI exI [of _ "Suc k"])
      show "p = utx" by (rule p)
      show "h' = SetGraffiti hh utx (g + of_nat (Suc k))"
        using h' by (simp add: add.assoc)
      show "t' = t + 2 * Suc k + 2"
        using t' by simp
      show "\<forall>i\<le>Suc k. ctx_Err ctx (t + 2 * i) = None \<and> validBlockID rq (t + 2 * i) cb = Inr True"
        using a by blast
      show "\<forall>i<Suc k. meets_estimate dp rq (SetGraffiti hh utx (g + of_nat i)) utx (t + 2 * i + 1) = Some False"
        using b by blast
      show "meets_estimate dp rq h' utx (t + 2 * Suc k + 1) = Some True"
        using met by simp
    qed
  qed
qed

lemma graffiti_loop_effect:
  "mine_graffiti_loop n dp ctx rq utx cb g (hh, t) = Some (r, h', t') \<Longrightarrow>
   (h' = hh \<or> (\<exists>x. h' = SetGraffiti hh utx x)) \<and> t \<le> t'"
proof (induction n arbitrary: g hh t)
  case 0
  then show ?case by simp
next
  case (Suc n)
  note run = Suc.prems [unfolded graffiti_loop_step]
  show ?case
  proof (cases "mine_graffiti_loop n dp ctx rq utx cb (g + 1) (SetGraffiti hh utx g, Suc (Suc t))
                  = Some (r, h', t')")
    case True
    from Suc.IH [OF True] show ?thesis by auto
  next
    case False
    with run show ?thesis
      by (auto split: if_splits sum.splits option.splits bool.splits)
  qed
qed


lemma mine_step:
  "mine (Suc n) dp ctx rq utx (h, t) =
     (case ctx_Err ctx t of
        Some cerr \<Rightarrow> Some (Inl cerr, h, t)
      | None \<Rightarrow>
          (case currBlock rq t of
             Inl err \<Rightarrow> Some (Inl err, h, Suc t)
           | Inr cbID \<Rightarrow>
               (case mine_graffiti_loop n dp ctx rq utx cbID 0 (SetBlockID h utx cbID, Suc t) of
                  None \<Rightarrow> None
                | Some (Some r, h2, t2) \<Rightarrow> Some (r, h2, t2)
                | Some (None, h2, t2) \<Rightarrow> mine n dp ctx rq utx (h2, t2))))"
  by (simp split: option.splits sum.splits)

lemma mine_returns_tx:
  "mine n dp ctx rq utx (hh, t) = Some (Inr p, h', t') \<Longrightarrow>
   p = utx \<and> (\<exists>t0 cb k. t \<le> t0 \<and> ctx_Err ctx t0 = None \<and> currBlock rq t0 = Inr cb \<and>
      h' = SetGraffiti (SetBlockID hh utx cb) utx (of_nat k) \<and> t' = t0 + 2 * k + 3 \<and>
      (\<forall>i\<le>k. ctx_Err ctx (t0 + 2 * i + 1) = None \<and> validBlockID rq (t0 + 2 * i + 1) cb = Inr True) \<and>
      (\<forall>i<k. meets_estimate dp rq (SetGraffiti (SetBlockID hh utx cb) utx (of_nat i)) utx
                (t0 + 2 * i + 2) = Some False) \<and>
      meets_estimate dp rq h' utx (t0 + 2 * k + 2) = Some True)"
proof (induction n arbitrary: hh t)
  case 0
  then show ?case by simp
next
  case (Suc n)
  note run = Suc.prems [unfolded mine_step]
  from run have live: "ctx_Err ctx t = None"
    by (simp split: option.splits)
  from run live obtain cb where cb: "currBlock rq t = Inr cb"
    by (auto split: sum.splits)
  let ?h1 = "SetBlockID hh utx cb"
  from run live cb obtain r h2 t2
    where inner: "mine_graffiti_loop n dp ctx rq utx cb 0 (?h1, Suc t) = Some (r, h2, t2)"
    by (auto split: option.splits)
  show ?case
  proof (cases r)
    case (Some x)
    with run live cb inner have x: "x = Inr p" "h2 = h'" "t2 = t'"
      by simp_all
    from graffiti_loop_returns_tx [OF inner [unfolded Some x]]
    obtain k where "p = utx" "h' = SetGraffiti ?h1 utx (0 + of_nat k)" "t' = Suc t + 2 * k + 2"
      "\<forall>i\<le>k. ctx_Err ctx (Suc t + 2 * i) = None \<and> validBlockID rq (Suc t + 2 * i) cb = Inr True"
      "\<forall>i<k. meets_estimate dp rq (SetGraffiti ?h1 utx (0 + of_nat i)) utx (Suc t + 2 * i + 1) = Some False"
      "meets_estimate dp rq h' utx (Suc t + 2 * k + 1) = Some True"
      by blast
    with live cb show ?thesis
      by (intro conjI exI [of _ t] exI [of _ cb] exI [of _ k]) simp_all
  next
    case None
    with run live cb inner have rest: "mine n dp ctx rq utx (h2, t2) = Some (Inr p, h', t')"
      by simp
    from graffiti_loop_effect [OF inner]
    have h2: "h2 = ?h1 \<or> (\<exists>x. h2 = SetGraffiti ?h1 utx x)" and t2: "Suc t \<le> t2"
      by simp_all
    have same: "SetGraffiti (SetBlockID h2 utx c) utx x = SetGraffiti (SetBlockID hh utx c) utx x"
      for c x
      using h2 by (auto simp: SetBlockID_SetGraffiti)
    from Suc.IH [OF rest] obtain t0 c k where p: "p = utx" and t0: "t2 \<le> t0"
      and rest': "ctx_Err ctx t0 = None" "currBlock rq t0 = Inr c"
        "h' = SetGraffiti (SetBlockID h2 utx c) utx (of_nat k)" "t' = t0 + 2 * k + 3"
        "\<forall>i\<le>k. ctx_Err ctx (t0 + 2 * i + 1) = None \<and> validBlockID rq (t0 + 2 * i + 1) c = Inr True"
        "\<forall>i<k. meets_estimate dp rq (SetGraffiti (SetBlockID h2 utx c) utx (of_nat i)) utx
                (t0 + 2 * i + 2) = Some False"
        "meets_estimate dp rq h' utx (t0 + 2 * k + 2) = Some True"
      by blast
    from t0 t2 have "t \<le> t0" by simp
    with p rest' show ?thesis
      unfolding same by (intro conjI exI [of _ t0] exI [of _ c] exI [of _ k])
  qed
qed

lemma graffiti_loop_ends:
  "d \<le> t + n \<Longrightarrow> mine_graffiti_loop (Suc n) dp (Deadline d) rq utx cb g (h, t) \<noteq> None"
proof (induction n arbitrary: g h t)
  case 0
  then show ?case
    by (simp add: ctx_Err_def)
next
  case (Suc n)
  show ?case
  proof (cases "d \<le> t")
    case True
    then show ?thesis
      by (simp add: ctx_Err_def)
  next
    case False
    with Suc.prems have "d \<le> Suc (Suc t) + n"
      by simp
    from Suc.IH [OF this]
    have rec: "mine_graffiti_loop (Suc n) dp (Deadline d) rq utx cb g' (h', Suc (Suc t)) \<noteq> None"
      for g' h' .
    then have "\<exists>r. mine_graffiti_loop (Suc n) dp (Deadline d) rq utx cb g' (h', Suc (Suc t)) = Some r"
      for g' h' by simp
    then show ?thesis
      by (subst mine_graffiti_loop.simps(2))
         (auto simp: Let_def split: sum.splits simp del: mine_graffiti_loop.simps)
  qed
qed

lemma mine_ends:
  "d \<le> t + n \<Longrightarrow> mine (Suc n) dp (Deadline d) rq utx (h, t) \<noteq> None"
proof (induction n arbitrary: h t)
  case 0
  then show ?case
    by (simp add: ctx_Err_def)
next
  case (Suc n)
  show ?case
  proof (cases "ctx_Err (Deadline d) t")
    case (Some e)
    then show ?thesis by (simp add: mine_step)
  next
    case None
    show ?thesis
    proof (cases "currBlock rq t")
      case (Inl err)
      with None show ?thesis by (simp add: mine_step)
    next
      case (Inr cb)
      from Suc.prems have "d \<le> Suc t + n" by simp
      from graffiti_loop_ends [OF this]
      obtain r h2 t2 where inner:
        "mine_graffiti_loop (Suc n) dp (Deadline d) rq utx cb 0 (SetBlockID h utx cb, Suc t) = Some (r, h2, t2)"
        by (metis not_None_eq prod_cases3)
      from graffiti_loop_effect [OF inner] Suc.prems have "d \<le> t2 + n"
        by simp
      from Suc.IH [OF this] None Inr inner show ?thesis
        by (cases r) (simp_all add: mine_step [of "Suc n"] del: mine.simps mine_graffiti_loop.simps)
    qed
  qed
qed

lemma currBlock_reply: "currBlock rq t = replyCurrBlock rq t"
  by (simp add: currBlock_def split: sum.splits)

lemma validBlockID_reply: "validBlockID rq t c = replyValidBlockID rq t c"
  by (simp add: validBlockID_def split: sum.splits)

lemma graffiti_loop_tries:
  "\<forall>i<j. ctx_Err ctx (t + 2 * i) = None \<and> replyValidBlockID rq (t + 2 * i) cb = Inr True \<and>
          meets_estimate dp rq (SetGraffiti h utx (g + of_nat i)) utx (t + 2 * i + 1) = Some False \<Longrightarrow>
   mine_graffiti_loop (j + n) dp ctx rq utx cb g (h, t)
     = mine_graffiti_loop n dp ctx rq utx cb (g + of_nat j)
         (if j = 0 then h else SetGraffiti h utx (g + of_nat (j - 1)), t + 2 * j)"
proof (induction j arbitrary: g h t)
  case 0
  show ?case by simp
next
  case (Suc j)
  from Suc.prems [rule_format, of 0]
  have first: "ctx_Err ctx t = None" "replyValidBlockID rq t cb = Inr True"
    "meets_estimate dp rq (SetGraffiti h utx g) utx (Suc t) = Some False"
    by simp_all
  have rest: "\<forall>i<j. ctx_Err ctx (Suc (Suc t) + 2 * i) = None \<and>
      replyValidBlockID rq (Suc (Suc t) + 2 * i) cb = Inr True \<and>
      meets_estimate dp rq (SetGraffiti (SetGraffiti h utx g) utx (g + 1 + of_nat i)) utx
        (Suc (Suc t) + 2 * i + 1) = Some False"
  proof (intro allI impI)
    fix i
    assume "i < j"
    with Suc.prems [rule_format, of "Suc i"]
    show "ctx_Err ctx (Suc (Suc t) + 2 * i) = None \<and>
      replyValidBlockID rq (Suc (Suc t) + 2 * i) cb = Inr True \<and>
      meets_estimate dp rq (SetGraffiti (SetGraffiti h utx g) utx (g + 1 + of_nat i)) utx
        (Suc (Suc t) + 2 * i + 1) = Some False"
      by (simp add: add.assoc)
  qed
  have "mine_graffiti_loop (Suc j + n) dp ctx rq utx cb g (h, t)
      = mine_graffiti_loop (j + n) dp ctx rq utx cb (g + 1) (SetGraffiti h utx g, Suc (Suc t))"
    using first by (simp add: graffiti_loop_step validBlockID_reply del: mine_graffiti_loop.simps)
  also have "\<dots> = mine_graffiti_loop n dp ctx rq utx cb (g + 1 + of_nat j)
      (if j = 0 then SetGraffiti h utx g
       else SetGraffiti (SetGraffiti h utx g) utx (g + 1 + of_nat (j - 1)), Suc (Suc t) + 2 * j)"
    by (rule Suc.IH [OF rest])
  also have "\<dots> = mine_graffiti_loop n dp ctx rq utx cb (g + of_nat (Suc j))
      (if Suc j = 0 then h else SetGraffiti h utx (g + of_nat (Suc j - 1)), t + 2 * Suc j)"
    by (cases j) (simp_all add: add.assoc)
  finally show ?case .
qed

lemma mine_tries:
  assumes alive: "ctx_Err ctx t = None" and cb: "replyCurrBlock rq t = Inr cb"
    and tries: "\<forall>i<j. ctx_Err ctx (t + 2 * i + 1) = None \<and>
        replyValidBlockID rq (t + 2 * i + 1) cb = Inr True \<and>
        meets_estimate dp rq (SetGraffiti (SetBlockID h utx cb) utx (of_nat i)) utx (t + 2 * i + 2)
          = Some False"
  shows "mine (Suc (j + Suc m)) dp ctx rq utx (h, t)
     = (case mine_graffiti_loop (Suc m) dp ctx rq utx cb (of_nat j)
               (if j = 0 then SetBlockID h utx cb
                else SetGraffiti (SetBlockID h utx cb) utx (of_nat (j - 1)), t + 2 * j + 1) of
          None \<Rightarrow> None
        | Some (Some r, h2, t2) \<Rightarrow> Some (r, h2, t2)
        | Some (None, h2, t2) \<Rightarrow> mine (j + Suc m) dp ctx rq utx (h2, t2))"
proof -
  have "\<forall>i<j. ctx_Err ctx (Suc t + 2 * i) = None \<and> replyValidBlockID rq (Suc t + 2 * i) cb = Inr True \<and>
          meets_estimate dp rq (SetGraffiti (SetBlockID h utx cb) utx (0 + of_nat i)) utx
            (Suc t + 2 * i + 1) = Some False"
    using tries by simp
  from graffiti_loop_tries [OF this, of "Suc m"]
  have "mine_graffiti_loop (j + Suc m) dp ctx rq utx cb 0 (SetBlockID h utx cb, Suc t)
      = mine_graffiti_loop (Suc m) dp ctx rq utx cb (of_nat j)
          (if j = 0 then SetBlockID h utx cb
           else SetGraffiti (SetBlockID h utx cb) utx (of_nat (j - 1)), t + 2 * j + 1)"
    by (simp del: mine_graffiti_loop.simps)
  moreover have "mine (Suc (j + Suc m)) dp ctx rq utx (h, t)
     = (case mine_graffiti_loop (j + Suc m) dp ctx rq utx cb 0 (SetBlockID h utx cb, Suc t) of
          None \<Rightarrow> None
        | Some (Some r, h2, t2) \<Rightarrow> Some (r, h2, t2)
        | Some (None, h2, t2) \<Rightarrow> mine (j + Suc m) dp ctx rq utx (h2, t2))"
    by (simp only: mine_step currBlock_reply alive cb option.case sum.case)
  ultimately show ?thesis
    by (simp only:)
qed

lemma ctx_Err_sticky: "ctx_Err ctx t = Some e \<Longrightarrow> t \<le> t' \<Longrightarrow> ctx_Err ctx t' = Some e"
  by (cases ctx) (auto simp: ctx_Err_def split: if_splits)

lemma graffiti_loop_by_deadline:
  "mine_graffiti_loop n dp (Deadline d) rq utx cb g (h, t) = Some (r, h', t') \<Longrightarrow>
   t' \<le> max t (Suc d)"
proof (induction n arbitrary: g h t)
  case 0
  then show ?case by simp
next
  case (Suc n)
  show ?case
  proof (cases "mine_graffiti_loop n dp (Deadline d) rq utx cb (g + 1)
                  (SetGraffiti h utx g, Suc (Suc t)) = Some (r, h', t') \<and> t < d")
    case True
    with Suc.IH [of "g + 1" "SetGraffiti h utx g" "Suc (Suc t)"] show ?thesis
      by auto
  next
    case False
    with Suc.prems [unfolded graffiti_loop_step] show ?thesis
      by (auto simp: ctx_Err_def split: if_splits sum.splits option.splits bool.splits)
  qed
qed

lemma mine_by_deadline:
  "mine n dp (Deadline d) rq utx (h, t) = Some (r, h', t') \<Longrightarrow> t' \<le> max t (Suc d)"
proof (induction n arbitrary: h t)
  case 0
  then show ?case by simp
next
  case (Suc n)
  note run = Suc.prems [unfolded mine_step]
  show ?case
  proof (cases "d \<le> t")
    case True
    with run show ?thesis
      by (simp add: ctx_Err_def)
  next
    case False
    then have live: "ctx_Err (Deadline d) t = None"
      by (simp add: ctx_Err_def)
    show ?thesis
    proof (cases "currBlock rq t")
      case (Inl err)
      with run live False show ?thesis by auto
    next
      case (Inr c)
      with run live obtain x h2 t2
        where inner: "mine_graffiti_loop n dp (Deadline d) rq utx c 0 (SetBlockID h utx c, Suc t)
                        = Some (x, h2, t2)"
        by (auto split: option.splits)
      from graffiti_loop_by_deadline [OF inner] False have t2: "t2 \<le> Suc d"
        by simp
      show ?thesis
      proof (cases x)
        case (Some y)
        with run live Inr inner t2 show ?thesis by auto
      next
        case None
        with run live Inr inner have "mine n dp (Deadline d) rq utx (h2, t2) = Some (r, h', t')"
          by simp
        from Suc.IH [OF this] t2 show ?thesis by simp
      qed
    qed
  qed
qed

text \<open>
  Claim C7, as the code has it. \<open>reply... t\<close> is the node's answer to the request sent at
  clock \<open>t\<close>. (1) When \<open>mine\<close> returns a transaction, it is the object it was given, and
  there is a round begun by a \<open>currBlock\<close> request (sent at clock \<open>t0\<close>, answered \<open>cb\<close>) in
  which the graffiti values \<open>0, 1, ..., k\<close> were tried in this order: at the head of each
  iteration the context was not done, the node then reported \<open>cb\<close> valid, every try before
  the last fell short of the estimate the node gave in its iteration, and the last one,
  which is the transaction returned (block id \<open>cb\<close>, graffiti \<open>k\<close>), meets the estimate
  given last. (2) Conversely, from any state where the context is not done and the node
  answers the \<open>currBlock\<close> request with \<open>cb\<close>, after \<open>j\<close> tries that fell short: when the
  next try meets the estimate, \<open>mine\<close> returns the transaction with block id \<open>cb\<close> and
  graffiti \<open>j\<close>; when the node reports \<open>cb\<close> invalid, the inner loop is left without a
  further try and \<open>mine\<close> goes on from the head of the outer loop, one request later, where
  this same statement says that the block id is requested again; when the context is done
  at the head of the inner loop, \<open>mine\<close> returns the error of the context. (3) When the
  context is done at the head of the outer loop, \<open>mine\<close> returns its error. Under a
  deadline the loops end, and \<open>mine\<close> returns at the latest one tick of the clock after the
  deadline: the context is read at the two loop heads only, so that an iteration begun
  before the deadline is carried through, and can return a transaction once the deadline
  has passed.
\<close>

theorem mine_returns_first_transaction_meeting_estimate:
  "(mine n dp ctx rq utx (h, t) = Some (Inr p, h', t') \<longrightarrow>
      p = utx \<and>
      (\<exists>t0 cb k. t \<le> t0 \<and> ctx_Err ctx t0 = None \<and> replyCurrBlock rq t0 = Inr cb \<and>
         h' = SetGraffiti (SetBlockID h utx cb) utx (of_nat k) \<and> t' = t0 + 2 * k + 3 \<and>
         (\<forall>i\<le>k. ctx_Err ctx (t0 + 2 * i + 1) = None \<and>
                replyValidBlockID rq (t0 + 2 * i + 1) cb = Inr True) \<and>
         (\<forall>i<k. meets_estimate dp rq (SetGraffiti (SetBlockID h utx cb) utx (of_nat i)) utx
                  (t0 + 2 * i + 2) = Some False) \<and>
         meets_estimate dp rq h' utx (t0 + 2 * k + 2) = Some True))
   \<and> (ctx_Err ctx t = None \<and> replyCurrBlock rq t = Inr cb \<and> j < n \<and>
      (\<forall>i<j. ctx_Err ctx (t + 2 * i + 1) = None \<and>
             replyValidBlockID rq (t + 2 * i + 1) cb = Inr True \<and>
             meets_estimate dp rq (SetGraffiti (SetBlockID h utx cb) utx (of_nat i)) utx
               (t + 2 * i + 2) = Some False) \<longrightarrow>
        (ctx_Err ctx (t + 2 * j + 1) = None \<and>
         replyValidBlockID rq (t + 2 * j + 1) cb = Inr True \<and>
         meets_estimate dp rq (SetGraffiti (SetBlockID h utx cb) utx (of_nat j)) utx
           (t + 2 * j + 2) = Some True \<longrightarrow>
           mine (Suc n) dp ctx rq utx (h, t)
             = Some (Inr utx, SetGraffiti (SetBlockID h utx cb) utx (of_nat j), t + 2 * j + 3)) \<and>
        (ctx_Err ctx (t + 2 * j + 1) = None \<and>
         replyValidBlockID rq (t + 2 * j + 1) cb = Inr False \<longrightarrow>
           mine (Suc n) dp ctx rq utx (h, t)
             = mine n dp ctx rq utx
                 (if j = 0 then SetBlockID h utx cb
                  else SetGraffiti (SetBlockID h utx cb) utx (of_nat (j - 1)), t + 2 * j + 2)) \<and>
        (ctx_Err ctx (t + 2 * j + 1) = Some e \<longrightarrow>
           mine (Suc n) dp ctx rq utx (h, t)
             = Some (Inl e,
                     if j = 0 then SetBlockID h utx cb
                     else SetGraffiti (SetBlockID h utx cb) utx (of_nat (j - 1)), t + 2 * j + 1)))
   \<and> (ctx_Err ctx t = Some e \<longrightarrow> mine (Suc n) dp ctx rq utx (h, t) = Some (Inl e, h, t))
   \<and> (d \<le> t + n \<longrightarrow> mine (Suc n) dp (Deadline d) rq utx (h, t) \<noteq> None)
   \<and> (mine n dp (Deadline d) rq utx (h, t) = Some (r, h', t') \<longrightarrow> t' \<le> max t (Suc d))"
proof (intro conjI impI)
  assume "mine n dp ctx rq utx (h, t) = Some (Inr p, h', t')"
  from mine_returns_tx [OF this, unfolded currBlock_reply validBlockID_reply]
  show "p = utx"
    and "\<exists>t0 cb k. t \<le> t0 \<and> ctx_Err ctx t0 = None \<and> replyCurrBlock rq t0 = Inr cb \<and>
         h' = SetGraffiti (SetBlockID h utx cb) utx (of_nat k) \<and> t' = t0 + 2 * k + 3 \<and>
         (\<forall>i\<le>k. ctx_Err ctx (t0 + 2 * i + 1) = None \<and>
                replyValidBlockID rq (t0 + 2 * i + 1) cb = Inr True) \<and>
         (\<forall>i<k. meets_estimate dp rq (SetGraffiti (SetBlockID h utx cb) utx (of_nat i)) utx
                  (t0 + 2 * i + 2) = Some False) \<and>
         meets_estimate dp rq h' utx (t0 + 2 * k + 2) = Some True"
    by (rule conjunct1, rule conjunct2)
next
  assume e: "ctx_Err ctx t = Some e"
  then show "mine (Suc n) dp ctx rq utx (h, t) = Some (Inl e, h, t)"
    by (simp add: mine_step)
next
  assume "d \<le> t + n"
  then show "mine (Suc n) dp (Deadline d) rq utx (h, t) \<noteq> None"
    by (rule mine_ends)
next
  assume "mine n dp (Deadline d) rq utx (h, t) = Some (r, h', t')"
  then show "t' \<le> max t (Suc d)"
    by (rule mine_by_deadline)
next
  let ?H = "if j = 0 then SetBlockID h utx cb
            else SetGraffiti (SetBlockID h utx cb) utx (of_nat (j - 1))"
  assume prem: "ctx_Err ctx t = None \<and> replyCurrBlock rq t = Inr cb \<and> j < n \<and>
      (\<forall>i<j. ctx_Err ctx (t + 2 * i + 1) = None \<and>
             replyValidBlockID rq (t + 2 * i + 1) cb = Inr True \<and>
             meets_estimate dp rq (SetGraffiti (SetBlockID h utx cb) utx (of_nat i)) utx
               (t + 2 * i + 2) = Some False)"
  then obtain m where n: "n = j + Suc m"
    using less_imp_Suc_add [of j n] by auto
  from prem have alive: "ctx_Err ctx t = None" and cb: "replyCurrBlock rq t = Inr cb"
    and tries: "\<forall>i<j. ctx_Err ctx (t + 2 * i + 1) = None \<and>
             replyValidBlockID rq (t + 2 * i + 1) cb = Inr True \<and>
             meets_estimate dp rq (SetGraffiti (SetBlockID h utx cb) utx (of_nat i)) utx
               (t + 2 * i + 2) = Some False"
    by simp_all
  note step = mine_tries [OF alive cb tries, of m, folded n]
  have next_try: "SetGraffiti ?H utx (of_nat j) = SetGraffiti (SetBlockID h utx cb) utx (of_nat j)"
    by simp
  {
    assume "ctx_Err ctx (t + 2 * j + 1) = None \<and>
         replyValidBlockID rq (t + 2 * j + 1) cb = Inr True \<and>
         meets_estimate dp rq (SetGraffiti (SetBlockID h utx cb) utx (of_nat j)) utx
           (t + 2 * j + 2) = Some True"
    then have "mine_graffiti_loop (Suc m) dp ctx rq utx cb (of_nat j) (?H, t + 2 * j + 1)
        = Some (Some (Inr utx), SetGraffiti (SetBlockID h utx cb) utx (of_nat j), t + 2 * j + 3)"
      by (simp add: graffiti_loop_step validBlockID_reply next_try
               del: mine_graffiti_loop.simps split del: if_split)
    then show "mine (Suc n) dp ctx rq utx (h, t)
        = Some (Inr utx, SetGraffiti (SetBlockID h utx cb) utx (of_nat j), t + 2 * j + 3)"
      by (simp only: step option.case prod.case)
  next
    assume "ctx_Err ctx (t + 2 * j + 1) = None \<and>
         replyValidBlockID rq (t + 2 * j + 1) cb = Inr False"
    then have "mine_graffiti_loop (Suc m) dp ctx rq utx cb (of_nat j) (?H, t + 2 * j + 1)
        = Some (None, ?H, t + 2 * j + 2)"
      by (simp add: graffiti_loop_step validBlockID_reply
               del: mine_graffiti_loop.simps split del: if_split)
    then show "mine (Suc n) dp ctx rq utx (h, t) = mine n dp ctx rq utx (?H, t + 2 * j + 2)"
      by (simp only: step option.case prod.case)
  next
    assume e: "ctx_Err ctx (t + 2 * j + 1) = Some e"
    then have "mine_graffiti_loop (Suc m) dp ctx rq utx cb (of_nat j) (?H, t + 2 * j + 1)
        = Some (None, ?H, t + 2 * j + 1)"
      by (simp add: graffiti_loop_step del: mine_graffiti_loop.simps split del: if_split)
    then have "mine (Suc n) dp ctx rq utx (h, t) = mine n dp ctx rq utx (?H, t + 2 * j + 1)"
      by (simp only: step option.case prod.case)
    also have "\<dots> = mine (Suc (j + m)) dp ctx rq utx (?H, t + 2 * j + 1)"
      by (simp add: n del: mine.simps)
    also have "\<dots> = Some (Inl e, ?H, t + 2 * j + 1)"
      using e by (simp only: mine_step option.case)
    finally show "mine (Suc n) dp ctx rq utx (h, t) = Some (Inl e, ?H, t + 2 * j + 1)" .
  }
qed

lemma example_mine_run:
  "mine 10 exampleDeps (Deadline 100) exampleRequester (ClaimTxPtr 1) (exampleHeap, 0) \<noteq> None"
  "fst (the (mine 10 exampleDeps (Deadline 100) exampleRequester (ClaimTxPtr 1) (exampleHeap, 0)))
     = Inr (ClaimTxPtr 1)"
  "snd (snd (the (mine 10 exampleDeps (Deadline 100) exampleRequester (ClaimTxPtr 1) (exampleHeap, 0))))
     = 9"
  "contents (fst (snd (the (mine 10 exampleDeps (Deadline 100) exampleRequester (ClaimTxPtr 1)
       (exampleHeap, 0))))) (ClaimTxPtr 1)
     = ClaimTxValue \<lparr>BaseTx.Sender = ''pub'', Prefix = ''hello.avax'', BlockID = 2, Graffiti = 2,
          BaseTx.Magic = 0, Price = 0\<rparr>"
  by code_simp+

lemma example_late_run:
  "mine 10 exampleDeps (Deadline 8) exampleRequester (ClaimTxPtr 1) (exampleHeap, 0) \<noteq> None"
  "fst (the (mine 10 exampleDeps (Deadline 8) exampleRequester (ClaimTxPtr 1) (exampleHeap, 0)))
     = Inr (ClaimTxPtr 1)"
  "snd (snd (the (mine 10 exampleDeps (Deadline 8) exampleRequester (ClaimTxPtr 1) (exampleHeap, 0))))
     = 9"
  by code_simp+

lemma example_meets_estimate:
  "meets_estimate exampleDeps exampleRequester (SetGraffiti h (ClaimTxPtr p) g) (ClaimTxPtr p) t
     = Some (2 \<le> g)"
  by (simp add: meets_estimate_def exampleDeps_def exampleRequester_def contents_def
        SetGraffiti_def baseOf_def)

lemma example_replies:
  "ctx_Err (Deadline d) t = (if d \<le> t then Some ContextDone else None)"
  "replyCurrBlock exampleRequester t = Inr (of_nat t)"
  "replyValidBlockID exampleRequester t c = Inr (t \<noteq> 1)"
  by (simp_all add: ctx_Err_def exampleRequester_def)

theorem mine_returns_first_transaction_meeting_estimate_witness:
  "(\<exists>h'. mine 10 exampleDeps (Deadline 100) exampleRequester (ClaimTxPtr 1) (exampleHeap, 0)
            = Some (Inr (ClaimTxPtr 1), h', 9) \<and>
      (\<exists>t0 cb k. 0 \<le> t0 \<and> ctx_Err (Deadline 100) t0 = None \<and>
         replyCurrBlock exampleRequester t0 = Inr cb \<and>
         h' = SetGraffiti (SetBlockID exampleHeap (ClaimTxPtr 1) cb) (ClaimTxPtr 1) (of_nat k) \<and>
         9 = t0 + 2 * k + 3 \<and>
         (\<forall>i\<le>k. ctx_Err (Deadline 100) (t0 + 2 * i + 1) = None \<and>
                replyValidBlockID exampleRequester (t0 + 2 * i + 1) cb = Inr True) \<and>
         (\<forall>i<k. meets_estimate exampleDeps exampleRequester
                  (SetGraffiti (SetBlockID exampleHeap (ClaimTxPtr 1) cb) (ClaimTxPtr 1) (of_nat i))
                  (ClaimTxPtr 1) (t0 + 2 * i + 2) = Some False) \<and>
         meets_estimate exampleDeps exampleRequester h' (ClaimTxPtr 1) (t0 + 2 * k + 2) = Some True))
   \<and> mine (Suc 9) exampleDeps (Deadline 100) exampleRequester (ClaimTxPtr 1) (exampleHeap, 0)
        = mine 9 exampleDeps (Deadline 100) exampleRequester (ClaimTxPtr 1)
            (SetBlockID exampleHeap (ClaimTxPtr 1) 0, 2)
   \<and> mine (Suc 8) exampleDeps (Deadline 100) exampleRequester (ClaimTxPtr 1)
          (SetBlockID exampleHeap (ClaimTxPtr 1) 0, 2)
        = Some (Inr (ClaimTxPtr 1),
                SetGraffiti (SetBlockID exampleHeap (ClaimTxPtr 1) 2) (ClaimTxPtr 1) 2, 9)
   \<and> mine (Suc 8) exampleDeps (Deadline 5) exampleRequester (ClaimTxPtr 1)
          (SetBlockID exampleHeap (ClaimTxPtr 1) 0, 2)
        = Some (Inl ContextDone,
                SetGraffiti (SetBlockID exampleHeap (ClaimTxPtr 1) 2) (ClaimTxPtr 1) 0, 5)
   \<and> mine (Suc 0) exampleDeps (Deadline 0) exampleRequester (ClaimTxPtr 1) (exampleHeap, 0)
        = Some (Inl ContextDone, exampleHeap, 0)
   \<and> mine (Suc 5) exampleDeps (Deadline 5) exampleRequester (ClaimTxPtr 1) (exampleHeap, 0) \<noteq> None
   \<and> (\<exists>h'. mine 10 exampleDeps (Deadline 8) exampleRequester (ClaimTxPtr 1) (exampleHeap, 0)
            = Some (Inr (ClaimTxPtr 1), h', 9) \<and> (9::nat) \<le> max 0 (Suc 8))"
proof -
  let ?u = "ClaimTxPtr 1"
  let ?H0 = "SetBlockID exampleHeap ?u 0"
  obtain h' where run:
    "mine 10 exampleDeps (Deadline 100) exampleRequester ?u (exampleHeap, 0)
       = Some (Inr ?u, h', 9)"
    using example_mine_run(1-3)
    by (cases "mine 10 exampleDeps (Deadline 100) exampleRequester ?u (exampleHeap, 0)") auto
  note found = mine_returns_first_transaction_meeting_estimate
      [where n = 10 and dp = exampleDeps and ctx = "Deadline 100" and rq = exampleRequester
        and utx = ?u and h = exampleHeap and t = 0 and p = ?u
        and h' = h' and t' = 9, THEN conjunct1, rule_format, OF run]
  from run found have first:
    "\<exists>h'. mine 10 exampleDeps (Deadline 100) exampleRequester (ClaimTxPtr 1) (exampleHeap, 0)
            = Some (Inr (ClaimTxPtr 1), h', 9) \<and>
      (\<exists>t0 cb k. 0 \<le> t0 \<and> ctx_Err (Deadline 100) t0 = None \<and>
         replyCurrBlock exampleRequester t0 = Inr cb \<and>
         h' = SetGraffiti (SetBlockID exampleHeap (ClaimTxPtr 1) cb) (ClaimTxPtr 1) (of_nat k) \<and>
         9 = t0 + 2 * k + 3 \<and>
         (\<forall>i\<le>k. ctx_Err (Deadline 100) (t0 + 2 * i + 1) = None \<and>
                replyValidBlockID exampleRequester (t0 + 2 * i + 1) cb = Inr True) \<and>
         (\<forall>i<k. meets_estimate exampleDeps exampleRequester
                  (SetGraffiti (SetBlockID exampleHeap (ClaimTxPtr 1) cb) (ClaimTxPtr 1) (of_nat i))
                  (ClaimTxPtr 1) (t0 + 2 * i + 2) = Some False) \<and>
         meets_estimate exampleDeps exampleRequester h' (ClaimTxPtr 1) (t0 + 2 * k + 2) = Some True)"
    by (intro exI [of _ h'] conjI) (rule run, rule conjunct2)
  have fetched0: "ctx_Err (Deadline 100) 0 = None \<and> replyCurrBlock exampleRequester 0 = Inr 0 \<and>
      (0::nat) < 9 \<and>
      (\<forall>i<0. ctx_Err (Deadline 100) (0 + 2 * i + 1) = None \<and>
             replyValidBlockID exampleRequester (0 + 2 * i + 1) 0 = Inr True \<and>
             meets_estimate exampleDeps exampleRequester
               (SetGraffiti (SetBlockID exampleHeap ?u 0) ?u (of_nat i)) ?u (0 + 2 * i + 2)
               = Some False)"
    by (simp add: example_replies)
  have invalid: "ctx_Err (Deadline 100) (0 + 2 * 0 + 1) = None \<and>
      replyValidBlockID exampleRequester (0 + 2 * 0 + 1) 0 = Inr False"
    by (simp add: example_replies)
  note abandon0 = mine_returns_first_transaction_meeting_estimate
      [where n = 9 and dp = exampleDeps and ctx = "Deadline 100" and rq = exampleRequester
        and utx = ?u and h = exampleHeap and t = 0 and cb = 0 and j = 0,
        THEN conjunct2, THEN conjunct1, rule_format, OF fetched0,
        THEN conjunct2, THEN conjunct1, rule_format, OF invalid]
  have abandon: "mine (Suc 9) exampleDeps (Deadline 100) exampleRequester ?u (exampleHeap, 0)
        = mine 9 exampleDeps (Deadline 100) exampleRequester ?u (?H0, 2)"
  proof -
    have clock: "(0::nat) + 2 * 0 + 2 = 2" by simp
    from abandon0 show ?thesis by (simp only: clock if_True simp_thms)
  qed
  have tried2: "ctx_Err (Deadline 100) 2 = None \<and> replyCurrBlock exampleRequester 2 = Inr 2 \<and>
      (2::nat) < 8 \<and>
      (\<forall>i<2. ctx_Err (Deadline 100) (2 + 2 * i + 1) = None \<and>
             replyValidBlockID exampleRequester (2 + 2 * i + 1) 2 = Inr True \<and>
             meets_estimate exampleDeps exampleRequester
               (SetGraffiti (SetBlockID ?H0 ?u 2) ?u (of_nat i)) ?u (2 + 2 * i + 2)
               = Some False)"
    by (simp add: example_replies example_meets_estimate less_2_cases_iff word_le_nat_alt)
  have met: "ctx_Err (Deadline 100) (2 + 2 * 2 + 1) = None \<and>
      replyValidBlockID exampleRequester (2 + 2 * 2 + 1) 2 = Inr True \<and>
      meets_estimate exampleDeps exampleRequester
        (SetGraffiti (SetBlockID ?H0 ?u 2) ?u (of_nat 2)) ?u (2 + 2 * 2 + 2) = Some True"
    by (simp add: example_replies example_meets_estimate)
  note refetched0 = mine_returns_first_transaction_meeting_estimate
      [where n = 8 and dp = exampleDeps and ctx = "Deadline 100" and rq = exampleRequester
        and utx = ?u and h = ?H0 and t = 2 and cb = 2 and j = 2,
        THEN conjunct2, THEN conjunct1, rule_format, OF tried2,
        THEN conjunct1, rule_format, OF met]
  have refetched: "mine (Suc 8) exampleDeps (Deadline 100) exampleRequester ?u (?H0, 2)
        = Some (Inr ?u, SetGraffiti (SetBlockID exampleHeap ?u 2) ?u 2, 9)"
  proof -
    have clock: "(2::nat) + 2 * 2 + 3 = 9" by simp
    from refetched0 show ?thesis by (simp only: clock SetBlockID_SetBlockID of_nat_numeral)
  qed
  have tried1: "ctx_Err (Deadline 5) 2 = None \<and> replyCurrBlock exampleRequester 2 = Inr 2 \<and>
      (1::nat) < 8 \<and>
      (\<forall>i<1. ctx_Err (Deadline 5) (2 + 2 * i + 1) = None \<and>
             replyValidBlockID exampleRequester (2 + 2 * i + 1) 2 = Inr True \<and>
             meets_estimate exampleDeps exampleRequester
               (SetGraffiti (SetBlockID ?H0 ?u 2) ?u (of_nat i)) ?u (2 + 2 * i + 2)
               = Some False)"
    by (simp add: example_replies example_meets_estimate word_le_nat_alt)
  have elapsed: "ctx_Err (Deadline 5) (2 + 2 * 1 + 1) = Some ContextDone"
    by (simp add: example_replies)
  note stopped0 = mine_returns_first_transaction_meeting_estimate
      [where n = 8 and dp = exampleDeps and ctx = "Deadline 5" and rq = exampleRequester
        and utx = ?u and h = ?H0 and t = 2 and cb = 2 and j = 1 and e = ContextDone,
        THEN conjunct2, THEN conjunct1, rule_format, OF tried1,
        THEN conjunct2, THEN conjunct2, rule_format, OF elapsed]
  have stopped: "mine (Suc 8) exampleDeps (Deadline 5) exampleRequester ?u (?H0, 2)
        = Some (Inl ContextDone, SetGraffiti (SetBlockID exampleHeap ?u 2) ?u 0, 5)"
  proof -
    have clock: "(2::nat) + 2 * 1 + 1 = 5" "(1::nat) - 1 = 0" by simp_all
    from stopped0 show ?thesis
      by (simp only: clock SetBlockID_SetBlockID semiring_1_class.of_nat_0 one_neq_zero if_False)
  qed
  have expired: "ctx_Err (Deadline 0) 0 = Some ContextDone"
    by (simp add: ctx_Err_def)
  note cancelled = mine_returns_first_transaction_meeting_estimate
      [where n = 0 and dp = exampleDeps and ctx = "Deadline 0" and rq = exampleRequester
        and utx = ?u and h = exampleHeap and t = 0 and e = ContextDone,
        THEN conjunct2, THEN conjunct2, THEN conjunct1, rule_format, OF expired]
  have "(5::nat) \<le> 0 + 5" by simp
  note ends = mine_returns_first_transaction_meeting_estimate
      [where n = 5 and dp = exampleDeps and rq = exampleRequester
        and utx = ?u and h = exampleHeap and t = 0 and d = 5,
        THEN conjunct2, THEN conjunct2, THEN conjunct2, THEN conjunct1, rule_format, OF this]
  obtain h8 where late:
    "mine 10 exampleDeps (Deadline 8) exampleRequester ?u (exampleHeap, 0) = Some (Inr ?u, h8, 9)"
    using example_late_run
    by (cases "mine 10 exampleDeps (Deadline 8) exampleRequester ?u (exampleHeap, 0)") auto
  note bound = mine_returns_first_transaction_meeting_estimate
      [where n = 10 and dp = exampleDeps and rq = exampleRequester
        and utx = ?u and h = exampleHeap and t = 0 and d = 8 and h' = h8 and t' = 9
        and r = "Inr ?u",
        THEN conjunct2, THEN conjunct2, THEN conjunct2, THEN conjunct2, rule_format, OF late]
  from late bound have last:
    "\<exists>h'. mine 10 exampleDeps (Deadline 8) exampleRequester (ClaimTxPtr 1) (exampleHeap, 0)
            = Some (Inr (ClaimTxPtr 1), h', 9) \<and> (9::nat) \<le> max 0 (Suc 8)"
    by (intro exI [of _ h8] conjI)
  from first abandon refetched stopped cancelled ends last show ?thesis
    by (intro conjI)
qed

theorem mine_returns_transaction_after_deadline_counterexample:
  "ctx_Err (Deadline 8) 8 = Some ContextDone
   \<and> mine 10 exampleDeps (Deadline 8) exampleRequester (ClaimTxPtr 1) (exampleHeap, 0) \<noteq> None
   \<and> fst (the (mine 10 exampleDeps (Deadline 8) exampleRequester (ClaimTxPtr 1) (exampleHeap, 0)))
       = Inr (ClaimTxPtr 1)
   \<and> snd (snd (the (mine 10 exampleDeps (Deadline 8) exampleRequester (ClaimTxPtr 1)
         (exampleHeap, 0)))) = 9"
  by code_simp

section \<open>Properties of the claim client and of Copy\<close>

lemma claimFunc_mine_failed:
  "LoadPK dp (privateKeyFile fl) = Inr priv \<Longrightarrow> getClaimOp dp args = Inr pfx \<Longrightarrow>
   mine n dp (Deadline (WithTimeout dp t)) rq (ClaimTxPtr (Suc (nextRef h)))
     (snd (newClaimTx (snd (newBaseTx h
        \<lparr>BaseTx.Sender = PublicKeyBytes dp priv, Prefix = pfx, BlockID = 0, Graffiti = 0,
           BaseTx.Magic = 0, Price = 0\<rparr>)) \<lparr>ClaimTx.BaseTx = nextRef h\<rparr>), t)
     = Some (Inl err, h3, t3) \<Longrightarrow>
   claimFunc n dp fl rq args (h, t) = Some (Returned (Some err), h3, t3)"
  by (simp add: claimFunc_def newBaseTx_def newClaimTx_def Let_def)

lemma claimFunc_heap_is_mines:
  "LoadPK dp (privateKeyFile fl) = Inr priv \<Longrightarrow> getClaimOp dp args = Inr pfx \<Longrightarrow>
   claimFunc n dp fl rq args (h, t) = Some (out, h', t') \<Longrightarrow>
   \<exists>r t3. mine n dp (Deadline (WithTimeout dp t)) rq (ClaimTxPtr (Suc (nextRef h)))
     (snd (newClaimTx (snd (newBaseTx h
        \<lparr>BaseTx.Sender = PublicKeyBytes dp priv, Prefix = pfx, BlockID = 0, Graffiti = 0,
           BaseTx.Magic = 0, Price = 0\<rparr>)) \<lparr>ClaimTx.BaseTx = nextRef h\<rparr>), t)
     = Some (r, h', t3)"
  by (auto simp: claimFunc_def newBaseTx_def newClaimTx_def Let_def
      split: option.splits sum.splits prod.splits if_splits)

lemma heap_as_stamped:
  "SetGraffiti (SetBlockID h utx (GetBlockID h utx)) utx (Graffiti (baseTxs h (baseOf h utx))) = h"
  by (simp add: SetGraffiti_def SetBlockID_def GetBlockID_def)

lemma SetBlockID_as_stamped:
  "SetGraffiti (SetBlockID h utx c) utx (Graffiti (baseTxs h (baseOf h utx))) = SetBlockID h utx c"
  by (simp add: SetGraffiti_def SetBlockID_def)

lemma mine_effect:
  "mine n dp ctx rq utx (h, t) = Some (r, h', t') \<Longrightarrow>
   (\<exists>c g. h' = SetGraffiti (SetBlockID h utx c) utx g) \<and> t \<le> t'"
proof (induction n arbitrary: h t)
  case 0
  then show ?case by simp
next
  case (Suc n)
  note run = Suc.prems [unfolded mine_step]
  show ?case
  proof (cases "ctx_Err ctx t")
    case (Some e)
    with run have "h' = h" "t' = t" by simp_all
    then show ?thesis
      using heap_as_stamped [of h utx, symmetric] by blast
  next
    case None
    show ?thesis
    proof (cases "currBlock rq t")
      case (Inl err)
      with None run have "h' = h" "t' = Suc t" by simp_all
      then show ?thesis
        using heap_as_stamped [of h utx, symmetric] by (auto intro: exI)
    next
      case (Inr cb)
      let ?h1 = "SetBlockID h utx cb"
      from run None Inr obtain r1 h2 t2
        where inner: "mine_graffiti_loop n dp ctx rq utx cb 0 (?h1, Suc t) = Some (r1, h2, t2)"
        by (auto split: option.splits)
      from graffiti_loop_effect [OF inner]
      have "h2 = ?h1 \<or> (\<exists>x. h2 = SetGraffiti ?h1 utx x)" and t2: "Suc t \<le> t2"
        by simp_all
      then obtain x where h2: "h2 = SetGraffiti ?h1 utx x"
        using SetBlockID_as_stamped [of h utx cb, symmetric] by metis
      show ?thesis
      proof (cases r1)
        case (Some x')
        with run None Inr inner have "h' = h2" "t' = t2" by simp_all
        with h2 t2 show ?thesis by auto
      next
        case None': None
        with run None Inr inner have "mine n dp ctx rq utx (h2, t2) = Some (r, h', t')"
          by simp
        from Suc.IH [OF this] obtain c g where "h' = SetGraffiti (SetBlockID h2 utx c) utx g"
          and "t2 \<le> t'" by blast
        with h2 t2 show ?thesis
          by (auto simp: SetBlockID_SetGraffiti)
      qed
    qed
  qed
qed


text \<open>
  Claim C8, as the code has it. A failed \<open>currBlock\<close>, \<open>validBlockID\<close> or
  \<open>difficultyEstimate\<close> request is not sent again: \<open>mine\<close> returns its error at once (from
  the outer loop or from inside the inner loop), and \<open>claimFunc\<close> returns the error of
  \<open>mine\<close> to its caller. Only a failed \<open>checkTx\<close> poll is not fatal: the polling loop goes
  on with its next iteration, which waits for the one-second timer again.
\<close>

theorem mine_returns_query_failure_and_poll_goes_on:
  "(ctx_Err ctx t = None \<and> currBlock rq t = Inl err \<longrightarrow>
      mine (Suc n) dp ctx rq utx (h, t) = Some (Inl err, h, Suc t))
   \<and> (ctx_Err ctx t = None \<and> validBlockID rq t cb = Inl err \<longrightarrow>
      mine_graffiti_loop (Suc n) dp ctx rq utx cb g (h, t) = Some (Some (Inl err), h, Suc t))
   \<and> (ctx_Err ctx t = None \<and> validBlockID rq t cb = Inr True \<and>
       UnsignedBytes dp (contents (SetGraffiti h utx g) utx) = Inr b \<and>
       difficultyEstimate rq (Suc t) = Inl err \<longrightarrow>
      mine_graffiti_loop (Suc n) dp ctx rq utx cb g (h, t)
        = Some (Some (Inl err), SetGraffiti h utx g, Suc (Suc t)))
   \<and> (ctx_Err ctx t = None \<and> currBlock rq t = Inr cb \<and>
       mine_graffiti_loop n dp ctx rq utx cb 0 (SetBlockID h utx cb, Suc t)
         = Some (Some (Inl err), h2, t2) \<longrightarrow>
      mine (Suc n) dp ctx rq utx (h, t) = Some (Inl err, h2, t2))
   \<and> (LoadPK dp (privateKeyFile fl) = Inr priv \<and> getClaimOp dp args = Inr pfx \<and>
       mine n dp (Deadline (WithTimeout dp t)) rq (ClaimTxPtr (Suc (nextRef h)))
          (snd (newClaimTx (snd (newBaseTx h
              \<lparr>BaseTx.Sender = PublicKeyBytes dp priv, Prefix = pfx, BlockID = 0, Graffiti = 0,
                 BaseTx.Magic = 0, Price = 0\<rparr>)) \<lparr>ClaimTx.BaseTx = nextRef h\<rparr>), t)
         = Some (Inl err, h3, t3) \<longrightarrow>
      claimFunc n dp fl rq args (h, t) = Some (Returned (Some err), h3, t3))
   \<and> (ctx_Err ctx t = None \<and> ctx_Err ctx (Suc t) = None \<and>
       replyCheckTx rq (Suc t) txID = Inl err \<longrightarrow>
      poll (Suc n) ctx rq txID t = poll n ctx rq txID (Suc (Suc t)))"
proof (intro conjI impI)
  assume "ctx_Err ctx t = None \<and> currBlock rq t = Inl err"
  then show "mine (Suc n) dp ctx rq utx (h, t) = Some (Inl err, h, Suc t)"
    by (simp add: mine_step)
next
  assume "ctx_Err ctx t = None \<and> validBlockID rq t cb = Inl err"
  then show "mine_graffiti_loop (Suc n) dp ctx rq utx cb g (h, t) = Some (Some (Inl err), h, Suc t)"
    by simp
next
  assume "ctx_Err ctx t = None \<and> validBlockID rq t cb = Inr True \<and>
       UnsignedBytes dp (contents (SetGraffiti h utx g) utx) = Inr b \<and>
       difficultyEstimate rq (Suc t) = Inl err"
  then show "mine_graffiti_loop (Suc n) dp ctx rq utx cb g (h, t)
        = Some (Some (Inl err), SetGraffiti h utx g, Suc (Suc t))"
    by (simp add: Let_def)
next
  assume "ctx_Err ctx t = None \<and> currBlock rq t = Inr cb \<and>
       mine_graffiti_loop n dp ctx rq utx cb 0 (SetBlockID h utx cb, Suc t)
         = Some (Some (Inl err), h2, t2)"
  then show "mine (Suc n) dp ctx rq utx (h, t) = Some (Inl err, h2, t2)"
    by (simp add: mine_step)
next
  assume "LoadPK dp (privateKeyFile fl) = Inr priv \<and> getClaimOp dp args = Inr pfx \<and>
       mine n dp (Deadline (WithTimeout dp t)) rq (ClaimTxPtr (Suc (nextRef h)))
          (snd (newClaimTx (snd (newBaseTx h
              \<lparr>BaseTx.Sender = PublicKeyBytes dp priv, Prefix = pfx, BlockID = 0, Graffiti = 0,
                 BaseTx.Magic = 0, Price = 0\<rparr>)) \<lparr>ClaimTx.BaseTx = nextRef h\<rparr>), t)
         = Some (Inl err, h3, t3)"
  then show "claimFunc n dp fl rq args (h, t) = Some (Returned (Some err), h3, t3)"
    by (elim conjE) (rule claimFunc_mine_failed)
next
  assume "ctx_Err ctx t = None \<and> ctx_Err ctx (Suc t) = None \<and>
       replyCheckTx rq (Suc t) txID = Inl err"
  then show "poll (Suc n) ctx rq txID t = poll n ctx rq txID (Suc (Suc t))"
    by simp
qed

lemma example_claim_heap:
  "snd (newClaimTx (snd (newBaseTx emptyHeap
      \<lparr>BaseTx.Sender = PublicKeyBytes exampleDeps ''priv'', Prefix = ''hello.avax'', BlockID = 0,
         Graffiti = 0, BaseTx.Magic = 0, Price = 0\<rparr>)) \<lparr>ClaimTx.BaseTx = nextRef emptyHeap\<rparr>)
   = exampleHeap"
  by (simp add: exampleHeap_def exampleDeps_def emptyHeap_def)

lemma example_claim_start:
  "LoadPK exampleDeps (privateKeyFile exampleFlags) = Inr ''priv''"
  "getClaimOp exampleDeps [''hello.avax''] = Inr ''hello.avax''"
  "nextRef emptyHeap = 0"
  by (simp_all add: exampleDeps_def getClaimOp_def emptyHeap_def)


lemma example_first_bytes:
  "UnsignedBytes exampleDeps (contents (SetGraffiti exampleHeap (ClaimTxPtr 1) 0) (ClaimTxPtr 1))
     = Inr []"
  by code_simp

theorem mine_returns_query_failure_and_poll_goes_on_witness:
  "mine (Suc 9) exampleDeps (Deadline 100) (exampleRequester\<lparr>replyCurrBlock := \<lambda>t. Inl (RequestFailed ''currBlock'')\<rparr>) (ClaimTxPtr 1) (exampleHeap, 0)
     = Some (Inl (RequestFailed ''currBlock''), exampleHeap, Suc 0)
   \<and> mine_graffiti_loop (Suc 8) exampleDeps (Deadline 100) (exampleRequester\<lparr>replyValidBlockID := \<lambda>t blkID. Inl (RequestFailed ''validBlockID'')\<rparr>) (ClaimTxPtr 1) 0 0
       (SetBlockID exampleHeap (ClaimTxPtr 1) 0, Suc 0)
     = Some (Some (Inl (RequestFailed ''validBlockID'')),
         SetBlockID exampleHeap (ClaimTxPtr 1) 0, Suc (Suc 0))
   \<and> mine_graffiti_loop (Suc 8) exampleDeps (Deadline 100) (exampleRequester\<lparr>replyDifficultyEstimate := \<lambda>t. Inl (RequestFailed ''difficultyEstimate'')\<rparr>) (ClaimTxPtr 1) 0 0
       (exampleHeap, 3)
     = Some (Some (Inl (RequestFailed ''difficultyEstimate'')),
         SetGraffiti exampleHeap (ClaimTxPtr 1) 0, Suc (Suc 3))
   \<and> mine (Suc (Suc 8)) exampleDeps (Deadline 100) (exampleRequester\<lparr>replyValidBlockID := \<lambda>t blkID. Inl (RequestFailed ''validBlockID'')\<rparr>) (ClaimTxPtr 1) (exampleHeap, 0)
     = Some (Inl (RequestFailed ''validBlockID''),
         SetBlockID exampleHeap (ClaimTxPtr 1) 0, Suc (Suc 0))
   \<and> claimFunc (Suc 9) exampleDeps exampleFlags (exampleRequester\<lparr>replyCurrBlock := \<lambda>t. Inl (RequestFailed ''currBlock'')\<rparr>) [''hello.avax''] (emptyHeap, 0)
     = Some (Returned (Some (RequestFailed ''currBlock'')), exampleHeap, Suc 0)
   \<and> poll (Suc 5) (Deadline 100) exampleRequester 9 3
     = poll 5 (Deadline 100) exampleRequester 9 (Suc (Suc 3))"
proof -
  have h1: "ctx_Err (Deadline 100) 0 = None \<and> currBlock (exampleRequester\<lparr>replyCurrBlock := \<lambda>t. Inl (RequestFailed ''currBlock'')\<rparr>) 0 = Inl (RequestFailed ''currBlock'')"
    by (simp add: ctx_Err_def currBlock_def)
  note c1 = mine_returns_query_failure_and_poll_goes_on
      [where n = 9 and dp = exampleDeps and ctx = "Deadline 100" and utx = "ClaimTxPtr 1"
        and h = exampleHeap and t = 0 and rq = "(exampleRequester\<lparr>replyCurrBlock := \<lambda>t. Inl (RequestFailed ''currBlock'')\<rparr>)" and err = "RequestFailed ''currBlock''",
        THEN conjunct1, rule_format, OF h1]
  have h2: "ctx_Err (Deadline 100) (Suc 0) = None
      \<and> validBlockID (exampleRequester\<lparr>replyValidBlockID := \<lambda>t blkID. Inl (RequestFailed ''validBlockID'')\<rparr>) (Suc 0) 0 = Inl (RequestFailed ''validBlockID'')"
    by (simp add: ctx_Err_def validBlockID_def)
  note c2 = mine_returns_query_failure_and_poll_goes_on
      [where n = 8 and dp = exampleDeps and ctx = "Deadline 100" and utx = "ClaimTxPtr 1"
        and h = "SetBlockID exampleHeap (ClaimTxPtr 1) 0" and t = "Suc 0" and rq = "(exampleRequester\<lparr>replyValidBlockID := \<lambda>t blkID. Inl (RequestFailed ''validBlockID'')\<rparr>)"
        and cb = 0 and g = 0 and err = "RequestFailed ''validBlockID''",
        THEN conjunct2, THEN conjunct1, rule_format, OF h2]
  have h3: "ctx_Err (Deadline 100) 3 = None \<and> validBlockID (exampleRequester\<lparr>replyDifficultyEstimate := \<lambda>t. Inl (RequestFailed ''difficultyEstimate'')\<rparr>) 3 0 = Inr True \<and>
      UnsignedBytes exampleDeps (contents (SetGraffiti exampleHeap (ClaimTxPtr 1) 0) (ClaimTxPtr 1))
        = Inr [] \<and>
      difficultyEstimate (exampleRequester\<lparr>replyDifficultyEstimate := \<lambda>t. Inl (RequestFailed ''difficultyEstimate'')\<rparr>) (Suc 3) = Inl (RequestFailed ''difficultyEstimate'')"
    using example_first_bytes
    by (simp add: ctx_Err_def validBlockID_def difficultyEstimate_def exampleRequester_def)
  note c3 = mine_returns_query_failure_and_poll_goes_on
      [where n = 8 and dp = exampleDeps and ctx = "Deadline 100" and utx = "ClaimTxPtr 1"
        and h = exampleHeap and t = 3 and rq = "(exampleRequester\<lparr>replyDifficultyEstimate := \<lambda>t. Inl (RequestFailed ''difficultyEstimate'')\<rparr>)" and cb = 0 and g = 0 and b = "[]"
        and err = "RequestFailed ''difficultyEstimate''",
        THEN conjunct2, THEN conjunct2, THEN conjunct1, rule_format, OF h3]
  have h4: "ctx_Err (Deadline 100) 0 = None \<and> currBlock (exampleRequester\<lparr>replyValidBlockID := \<lambda>t blkID. Inl (RequestFailed ''validBlockID'')\<rparr>) 0 = Inr 0 \<and>
      mine_graffiti_loop (Suc 8) exampleDeps (Deadline 100) (exampleRequester\<lparr>replyValidBlockID := \<lambda>t blkID. Inl (RequestFailed ''validBlockID'')\<rparr>) (ClaimTxPtr 1) 0 0
        (SetBlockID exampleHeap (ClaimTxPtr 1) 0, Suc 0)
      = Some (Some (Inl (RequestFailed ''validBlockID'')),
          SetBlockID exampleHeap (ClaimTxPtr 1) 0, Suc (Suc 0))"
    using c2 by (simp add: ctx_Err_def currBlock_def exampleRequester_def)
  note c4 = mine_returns_query_failure_and_poll_goes_on
      [where n = "Suc 8" and dp = exampleDeps and ctx = "Deadline 100" and utx = "ClaimTxPtr 1"
        and h = exampleHeap and t = 0 and rq = "(exampleRequester\<lparr>replyValidBlockID := \<lambda>t blkID. Inl (RequestFailed ''validBlockID'')\<rparr>)" and cb = 0
        and err = "RequestFailed ''validBlockID''"
        and ?h2.0 = "SetBlockID exampleHeap (ClaimTxPtr 1) 0" and ?t2.0 = "Suc (Suc 0)",
        THEN conjunct2, THEN conjunct2, THEN conjunct2, THEN conjunct1, rule_format, OF h4]
  have w: "WithTimeout exampleDeps 0 = 100" and r: "Suc (nextRef emptyHeap) = 1"
    by (simp_all add: exampleDeps_def emptyHeap_def)
  have m5: "mine (Suc 9) exampleDeps (Deadline (WithTimeout exampleDeps 0)) (exampleRequester\<lparr>replyCurrBlock := \<lambda>t. Inl (RequestFailed ''currBlock'')\<rparr>)
        (ClaimTxPtr (Suc (nextRef emptyHeap)))
        (snd (newClaimTx (snd (newBaseTx emptyHeap
            \<lparr>BaseTx.Sender = PublicKeyBytes exampleDeps ''priv'', Prefix = ''hello.avax'',
               BlockID = 0, Graffiti = 0, BaseTx.Magic = 0, Price = 0\<rparr>))
            \<lparr>ClaimTx.BaseTx = nextRef emptyHeap\<rparr>), 0)
      = Some (Inl (RequestFailed ''currBlock''), exampleHeap, Suc 0)"
    unfolding example_claim_heap w r by (rule c1)
  have h5: "LoadPK exampleDeps (privateKeyFile exampleFlags) = Inr ''priv'' \<and>
      getClaimOp exampleDeps [''hello.avax''] = Inr ''hello.avax'' \<and>
      mine (Suc 9) exampleDeps (Deadline (WithTimeout exampleDeps 0)) (exampleRequester\<lparr>replyCurrBlock := \<lambda>t. Inl (RequestFailed ''currBlock'')\<rparr>)
        (ClaimTxPtr (Suc (nextRef emptyHeap)))
        (snd (newClaimTx (snd (newBaseTx emptyHeap
            \<lparr>BaseTx.Sender = PublicKeyBytes exampleDeps ''priv'', Prefix = ''hello.avax'',
               BlockID = 0, Graffiti = 0, BaseTx.Magic = 0, Price = 0\<rparr>))
            \<lparr>ClaimTx.BaseTx = nextRef emptyHeap\<rparr>), 0)
      = Some (Inl (RequestFailed ''currBlock''), exampleHeap, Suc 0)"
    by (intro conjI example_claim_start m5)
  note c5 = mine_returns_query_failure_and_poll_goes_on
      [where n = "Suc 9" and dp = exampleDeps and fl = exampleFlags and rq = "(exampleRequester\<lparr>replyCurrBlock := \<lambda>t. Inl (RequestFailed ''currBlock'')\<rparr>)"
        and args = "[''hello.avax'']" and h = emptyHeap and t = 0 and priv = "''priv''"
        and pfx = "''hello.avax''" and err = "RequestFailed ''currBlock''"
        and ?h3.0 = exampleHeap and ?t3.0 = "Suc 0",
        THEN conjunct2, THEN conjunct2, THEN conjunct2, THEN conjunct2, THEN conjunct1,
        rule_format, OF h5]
  have h6: "ctx_Err (Deadline 100) 3 = None \<and> ctx_Err (Deadline 100) (Suc 3) = None \<and>
      replyCheckTx exampleRequester (Suc 3) 9 = Inl (RequestFailed ''checkTx'')"
    by (simp add: ctx_Err_def exampleRequester_def)
  note c6 = mine_returns_query_failure_and_poll_goes_on
      [where n = 5 and ctx = "Deadline 100" and rq = exampleRequester and t = 3 and txID = 9
        and err = "RequestFailed ''checkTx''",
        THEN conjunct2, THEN conjunct2, THEN conjunct2, THEN conjunct2, THEN conjunct2,
        rule_format, OF h6]
  from c1 c2 c3 c4 c5 c6 show ?thesis
    by (intro conjI)
qed

theorem claim_ends_on_failed_query_counterexample:
  "map_option (\<lambda>(out, h, t). (out, t))
     (claimFunc 10 exampleDeps exampleFlags (exampleRequester\<lparr>replyValidBlockID := \<lambda>t blkID. Inl (RequestFailed ''validBlockID'')\<rparr>) [''hello.avax''] (emptyHeap, 0))
   = Some (Returned (Some (RequestFailed ''validBlockID'')), 2)"
  by code_simp

lemma example_claim_succeeds_after_failed_poll:
  "map_option (\<lambda>(out, h, t). (out, t))
     (claimFunc 10 exampleDeps exampleFlags exampleRequester [''hello.avax''] (emptyHeap, 0))
   = Some (Returned None, 15)"
  by code_simp







lemma getClaimOp_single:
  "getClaimOp dp [arg] =
     (case ParseKey dp (if arg \<noteq> [] \<and> last arg = CHR ''/'' then butlast arg else arg) of
        Some err \<Rightarrow> Inl 128
      | None \<Rightarrow> Inr (if arg \<noteq> [] \<and> last arg = CHR ''/'' then butlast arg else arg))"
  by (simp add: getClaimOp_def Let_def)

lemma claimFunc_exit:
  "getClaimOp dp args = Inl code \<Longrightarrow>
   claimFunc n dp fl rq args (h, t) =
     (case LoadPK dp (privateKeyFile fl) of
        Inl e \<Rightarrow> Some (Returned (Some e), h, t)
      | Inr priv \<Rightarrow> Some (Exit code, h, t))"
  by (simp add: claimFunc_def split: sum.splits)

lemma claimFunc_args_cong:
  "getClaimOp dp args = getClaimOp dp args' \<Longrightarrow>
   claimFunc n dp fl rq args s = claimFunc n dp fl rq args' s"
  unfolding claimFunc_def by (cases s, cases "LoadPK dp (privateKeyFile fl)") simp_all

text \<open>
  Claim C10. When \<open>ParseKey\<close> refuses the argument after the trailing slash is stripped,
  \<open>getClaimOp\<close> exits with status 128, and \<open>claimFunc\<close> ends there (or earlier, on a key
  file that cannot be loaded) with the object store and the clock it started with: no
  \<open>ClaimTx\<close> was built and no request was sent. One trailing \<open>/\<close> is stripped and no more:
  an argument that ends in a single \<open>/\<close> gives the same run as the argument without it,
  and the prefix of the \<open>ClaimTx\<close> that \<open>claimFunc\<close> builds is the stripped argument.
\<close>

theorem claim_with_refused_prefix_exits_before_ClaimTx:
  "(ParseKey dp (if arg \<noteq> [] \<and> last arg = CHR ''/'' then butlast arg else arg) = Some err \<longrightarrow>
      getClaimOp dp [arg] = Inl 128 \<and>
      (claimFunc n dp fl rq [arg] (h, t) = Some (Exit 128, h, t) \<or>
       (\<exists>e. LoadPK dp (privateKeyFile fl) = Inl e \<and>
            claimFunc n dp fl rq [arg] (h, t) = Some (Returned (Some e), h, t))))
   \<and> (arg = [] \<or> last arg \<noteq> CHR ''/'' \<longrightarrow>
      getClaimOp dp [arg @ ''/''] = getClaimOp dp [arg] \<and>
      claimFunc n dp fl rq [arg @ ''/''] (h, t) = claimFunc n dp fl rq [arg] (h, t))
   \<and> (getClaimOp dp [arg] = Inr pfx \<longrightarrow>
      pfx = (if arg \<noteq> [] \<and> last arg = CHR ''/'' then butlast arg else arg) \<and>
      ParseKey dp pfx = None)
   \<and> (LoadPK dp (privateKeyFile fl) = Inr priv \<and> getClaimOp dp [arg] = Inr pfx \<and>
       claimFunc n dp fl rq [arg] (h, t) = Some (out, h', t') \<longrightarrow>
      claimTxs h' (Suc (nextRef h)) = \<lparr>ClaimTx.BaseTx = nextRef h\<rparr> \<and>
      Prefix (baseTxs h' (nextRef h)) = pfx)"
proof (intro conjI impI)
  assume refused: "ParseKey dp (if arg \<noteq> [] \<and> last arg = CHR ''/'' then butlast arg else arg) = Some err"
  then show exit: "getClaimOp dp [arg] = Inl 128"
    by (simp add: getClaimOp_single)
  show "claimFunc n dp fl rq [arg] (h, t) = Some (Exit 128, h, t) \<or>
       (\<exists>e. LoadPK dp (privateKeyFile fl) = Inl e \<and>
            claimFunc n dp fl rq [arg] (h, t) = Some (Returned (Some e), h, t))"
    by (cases "LoadPK dp (privateKeyFile fl)") (simp_all add: claimFunc_exit [OF exit])
next
  assume "arg = [] \<or> last arg \<noteq> CHR ''/''"
  then show same: "getClaimOp dp [arg @ ''/''] = getClaimOp dp [arg]"
    by (auto simp: getClaimOp_single split: option.splits)
  then show "claimFunc n dp fl rq [arg @ ''/''] (h, t) = claimFunc n dp fl rq [arg] (h, t)"
    by (rule claimFunc_args_cong)
next
  assume "getClaimOp dp [arg] = Inr pfx"
  then show "pfx = (if arg \<noteq> [] \<and> last arg = CHR ''/'' then butlast arg else arg)"
    and "ParseKey dp pfx = None"
    by (auto simp: getClaimOp_single split: option.splits)
next
  assume a: "LoadPK dp (privateKeyFile fl) = Inr priv \<and> getClaimOp dp [arg] = Inr pfx \<and>
       claimFunc n dp fl rq [arg] (h, t) = Some (out, h', t')"
  let ?h0 = "snd (newClaimTx (snd (newBaseTx h
        \<lparr>BaseTx.Sender = PublicKeyBytes dp priv, Prefix = pfx, BlockID = 0, Graffiti = 0,
           BaseTx.Magic = 0, Price = 0\<rparr>)) \<lparr>ClaimTx.BaseTx = nextRef h\<rparr>)"
  from a claimFunc_heap_is_mines [of dp fl priv "[arg]" pfx n rq h t out h' t']
  obtain r t3 where "mine n dp (Deadline (WithTimeout dp t)) rq (ClaimTxPtr (Suc (nextRef h)))
      (?h0, t) = Some (r, h', t3)"
    by blast
  from mine_effect [OF this] obtain c g
    where h': "h' = SetGraffiti (SetBlockID ?h0 (ClaimTxPtr (Suc (nextRef h))) c)
                     (ClaimTxPtr (Suc (nextRef h))) g"
    by blast
  show "claimTxs h' (Suc (nextRef h)) = \<lparr>ClaimTx.BaseTx = nextRef h\<rparr>"
    by (simp add: h' SetGraffiti_def SetBlockID_def newClaimTx_def newBaseTx_def)
  show "Prefix (baseTxs h' (nextRef h)) = pfx"
    by (simp add: h' SetGraffiti_def SetBlockID_def newClaimTx_def newBaseTx_def baseOf_def)
qed


lemma example_claim_run:
  "claimFunc 10 exampleDeps exampleFlags exampleRequester [''hello.avax/''] (emptyHeap, 0) \<noteq> None"
  by code_simp

theorem claim_with_refused_prefix_exits_before_ClaimTx_witness:
  "getClaimOp exampleDeps [''/''] = Inl 128
   \<and> claimFunc 10 exampleDeps exampleFlags exampleRequester [''/''] (emptyHeap, 0)
       = Some (Exit 128, emptyHeap, 0)
   \<and> getClaimOp exampleDeps [''hello.avax/''] = getClaimOp exampleDeps [''hello.avax'']
   \<and> claimFunc 10 exampleDeps exampleFlags exampleRequester [''hello.avax/''] (emptyHeap, 0)
       = claimFunc 10 exampleDeps exampleFlags exampleRequester [''hello.avax''] (emptyHeap, 0)
   \<and> getClaimOp exampleDeps [''a//''] = Inr ''a/''
   \<and> ParseKey exampleDeps ''a/'' = None
   \<and> claimTxs (fst (snd (the (claimFunc 10 exampleDeps exampleFlags exampleRequester [''hello.avax/''] (emptyHeap, 0))))) (Suc (nextRef emptyHeap)) = \<lparr>ClaimTx.BaseTx = nextRef emptyHeap\<rparr>
   \<and> Prefix (baseTxs (fst (snd (the (claimFunc 10 exampleDeps exampleFlags exampleRequester [''hello.avax/''] (emptyHeap, 0))))) (nextRef emptyHeap)) = ''hello.avax''"
proof -
  have refused: "ParseKey exampleDeps
      (if ''/'' \<noteq> [] \<and> last ''/'' = CHR ''/'' then butlast ''/'' else ''/'')
      = Some (KeyError ''empty'')"
    by (simp add: exampleDeps_def)
  note c1 = claim_with_refused_prefix_exits_before_ClaimTx
      [where dp = exampleDeps and arg = "''/''" and err = "KeyError ''empty''" and n = 10
        and fl = exampleFlags and rq = exampleRequester and h = emptyHeap and t = 0,
        THEN conjunct1, rule_format, OF refused]
  from c1 have exit: "claimFunc 10 exampleDeps exampleFlags exampleRequester [''/''] (emptyHeap, 0)
       = Some (Exit 128, emptyHeap, 0)"
    by (auto simp: example_claim_start)
  have single: "''hello.avax'' = [] \<or> last ''hello.avax'' \<noteq> CHR ''/''"
    by simp
  note c2 = claim_with_refused_prefix_exits_before_ClaimTx
      [where dp = exampleDeps and arg = "''hello.avax''" and n = 10
        and fl = exampleFlags and rq = exampleRequester and h = emptyHeap and t = 0,
        THEN conjunct2, THEN conjunct1, rule_format, OF single, simplified append.simps]
  have two: "getClaimOp exampleDeps [''a//''] = Inr ''a/''"
    by (simp add: getClaimOp_single exampleDeps_def)
  note c3 = claim_with_refused_prefix_exits_before_ClaimTx
      [where dp = exampleDeps and arg = "''a//''" and pfx = "''a/''",
        THEN conjunct2, THEN conjunct2, THEN conjunct1, rule_format, OF two]
  have start: "LoadPK exampleDeps (privateKeyFile exampleFlags) = Inr ''priv'' \<and>
      getClaimOp exampleDeps [''hello.avax/''] = Inr ''hello.avax'' \<and>
      (claimFunc 10 exampleDeps exampleFlags exampleRequester [''hello.avax/''] (emptyHeap, 0)) = Some (fst (the (claimFunc 10 exampleDeps exampleFlags exampleRequester [''hello.avax/''] (emptyHeap, 0))), fst (snd (the (claimFunc 10 exampleDeps exampleFlags exampleRequester [''hello.avax/''] (emptyHeap, 0)))), snd (snd (the (claimFunc 10 exampleDeps exampleFlags exampleRequester [''hello.avax/''] (emptyHeap, 0)))))"
    using example_claim_run by (simp add: example_claim_start getClaimOp_single exampleDeps_def)
  note c4 = claim_with_refused_prefix_exits_before_ClaimTx
      [where dp = exampleDeps and arg = "''hello.avax/''" and pfx = "''hello.avax''" and n = 10
        and fl = exampleFlags and rq = exampleRequester and h = emptyHeap and t = 0
        and priv = "''priv''" and out = "fst (the (claimFunc 10 exampleDeps exampleFlags exampleRequester [''hello.avax/''] (emptyHeap, 0)))" and h' = "fst (snd (the (claimFunc 10 exampleDeps exampleFlags exampleRequester [''hello.avax/''] (emptyHeap, 0))))"
        and t' = "snd (snd (the (claimFunc 10 exampleDeps exampleFlags exampleRequester [''hello.avax/''] (emptyHeap, 0))))",
        THEN conjunct2, THEN conjunct2, THEN conjunct2, rule_format, OF start]
  from c1 [THEN conjunct1] exit c2 two c3 [THEN conjunct2] c4 show ?thesis
    by (intro conjI) simp_all
qed

end
